theory Spec2Isabelle
  imports Complex_Main
begin

section \<open>JavaScript values\<close>

text \<open>
  A JavaScript number: the finite doubles are kept as exact rationals (the code only compares
  them with zero and copies them), next to the three special values.
\<close>

datatype jsnumber = NaN | NegInf | Fin rat | PosInf

text \<open>\<open>!!n\<close>: \<open>NaN\<close> and zero are falsy.\<close>

fun num_truthy :: "jsnumber \<Rightarrow> bool" where
  "num_truthy NaN = False"
| "num_truthy (Fin r) = (r \<noteq> 0)"
| "num_truthy NegInf = True"
| "num_truthy PosInf = True"

text \<open>\<open>n <= 0\<close>; every comparison with \<open>NaN\<close> is false.\<close>

fun num_le_zero :: "jsnumber \<Rightarrow> bool" where
  "num_le_zero NaN = False"
| "num_le_zero NegInf = True"
| "num_le_zero (Fin r) = (r \<le> 0)"
| "num_le_zero PosInf = False"

text \<open>\<open>n > 0\<close>.\<close>

fun num_gt_zero :: "jsnumber \<Rightarrow> bool" where
  "num_gt_zero NaN = False"
| "num_gt_zero NegInf = False"
| "num_gt_zero (Fin r) = (0 < r)"
| "num_gt_zero PosInf = True"

text \<open>The values a cell of a row, or a field of an expense object, can hold.\<close>

datatype jsval = Undefined | Null | Str string | Number jsnumber

fun truthy :: "jsval \<Rightarrow> bool" where
  "truthy Undefined = False"
| "truthy Null = False"
| "truthy (Str s) = (s \<noteq> [])"
| "truthy (Number n) = num_truthy n"

text \<open>\<open>a || b\<close>.\<close>

definition js_or :: "jsval \<Rightarrow> jsval \<Rightarrow> jsval" where
  "js_or a b = (if truthy a then a else b)"

text \<open>\<open>row[i]\<close>: reading past the end of an array gives \<open>undefined\<close>.\<close>

definition cell :: "jsval list \<Rightarrow> nat \<Rightarrow> jsval" where
  "cell row i = (if i < length row then row ! i else Undefined)"

text \<open>
  \<open>parseFloat(v)\<close>. The argument is first converted to a string. For a number that string is
  its shortest round-trip rendering, which parses back to the same number; \<open>undefined\<close>
  and \<open>null\<close> render as words that are no number. The parse of a string proper is the
  builtin's, taken as the parameter \<open>pf\<close>.
\<close>

fun parseFloat :: "(string \<Rightarrow> jsnumber) \<Rightarrow> jsval \<Rightarrow> jsnumber" where
  "parseFloat pf (Number n) = n"
| "parseFloat pf (Str s) = pf s"
| "parseFloat pf Undefined = NaN"
| "parseFloat pf Null = NaN"

text \<open>
  \<open>JSON.parse(JSON.stringify(v))\<close> for the value of a property: a number that is not finite
  is written as \<open>null\<close>; a property that is \<open>undefined\<close> is left out, and is \<open>undefined\<close>
  again when read.
\<close>

fun viaJSON :: "jsval \<Rightarrow> jsval" where
  "viaJSON (Number (Fin r)) = Number (Fin r)"
| "viaJSON (Number n) = Null"
| "viaJSON v = v"

text \<open>A rejected promise carries an error; \<open>message\<close> is its text.\<close>

datatype error = Error string | TypeError string

fun message :: "error \<Rightarrow> string" where
  "message (Error m) = m"
| "message (TypeError m) = m"

section \<open>helpers/sheetsHelpers.js: pure helpers\<close>

text \<open>An expense object; its field \<open>id\<close> is \<open>ident\<close> here.\<close>

record expense =
  ident :: jsval
  date :: jsval
  category :: jsval
  amount :: jsval
  comment :: jsval

text \<open>An expense as \<open>JSON.parse\<close> reads it back from what \<open>JSON.stringify\<close> wrote.\<close>

definition expenseViaJSON :: "expense \<Rightarrow> expense" where
  "expenseViaJSON e =
     \<lparr> ident = viaJSON (ident e), date = viaJSON (date e), category = viaJSON (category e),
       amount = viaJSON (amount e), comment = viaJSON (comment e) \<rparr>"



definition rangeA1 :: "string \<Rightarrow> string \<Rightarrow> string" where
  "rangeA1 sheetName a1 = sheetName @ ''!'' @ a1"

definition headerRow :: "jsval list list" where
  "headerRow = [[Str ''ID'', Str ''Date'', Str ''Category'', Str ''Amount'', Str ''Comment'']]"

definition expenseToRow :: "expense \<Rightarrow> jsval list" where
  "expenseToRow e = [ident e, date e, category e, amount e, comment e]"

text \<open>
  \<open>u\<close> is the identifier \<open>uuid()\<close> returns if it is called, which happens only when
  \<open>row[0]\<close> is falsy.
\<close>

definition rowToExpense :: "(string \<Rightarrow> jsnumber) \<Rightarrow> string \<Rightarrow> jsval list \<Rightarrow> expense option" where
  "rowToExpense pf u row =
     (let p = parseFloat pf (cell row 3);
          amt = (if num_truthy p then p else Fin 0)
      in if num_le_zero amt then None
         else Some \<lparr> ident = js_or (cell row 0) (Str u),
                     date = js_or (cell row 1) (Str ''''),
                     category = js_or (cell row 2) (Str ''other''),
                     amount = Number amt,
                     comment = js_or (cell row 4) (Str '''') \<rparr>)"

text \<open>
  \<open>(rows || []).map(rowToExpense).filter(Boolean)\<close>; \<open>us i\<close> is the identifier drawn for
  the row at position \<open>i\<close>.
\<close>

definition rowsToExpenses ::
  "(string \<Rightarrow> jsnumber) \<Rightarrow> (nat \<Rightarrow> string) \<Rightarrow> jsval list list option \<Rightarrow> expense list" where
  "rowsToExpenses pf us rows =
     map the (filter (\<lambda>r. r \<noteq> None)
       (map (\<lambda>(i, row). rowToExpense pf (us i) row)
            (enumerate 0 (case rows of None \<Rightarrow> [] | Some rs \<Rightarrow> rs))))"

record delete_dimension =
  sheetId :: int
  dimension :: string
  startIndex :: int
  endIndex :: int

definition buildDeleteRowRequest :: "int \<Rightarrow> int \<Rightarrow> delete_dimension" where
  "buildDeleteRowRequest numericSheetId zeroBasedIndex =
     \<lparr> sheetId = numericSheetId, dimension = ''ROWS'',
       startIndex = zeroBasedIndex, endIndex = zeroBasedIndex + 1 \<rparr>"

text \<open>\<open>Array.prototype.findIndex\<close>: the first position whose element satisfies \<open>P\<close>, else \<open>-1\<close>.\<close>

fun findIndex :: "('a \<Rightarrow> bool) \<Rightarrow> 'a list \<Rightarrow> int" where
  "findIndex P [] = - 1"
| "findIndex P (x # xs) =
     (if P x then 0 else (let i = findIndex P xs in if i = - 1 then - 1 else i + 1))"

text \<open>The identifier searched for is a string, so \<open>r[0] === expenseId\<close> is equality with it.\<close>

definition findRowIndex :: "jsval list list \<Rightarrow> string \<Rightarrow> int" where
  "findRowIndex idColumn expenseId =
     (let offset = findIndex (\<lambda>r. cell r 0 = Str expenseId) idColumn
      in if offset = - 1 then - 1 else offset + 1)"

section \<open>services/storageService.js\<close>

text \<open>
  The two browser stores, one field per key of \<open>SESSION_STORAGE\<close> and \<open>LOCAL_STORAGE\<close>;
  \<open>None\<close> is an absent key. The stores hold strings: the expiry is written as
  \<open>String(expiresAt)\<close> and read back with \<open>Number\<close>, and the model keeps the integer that
  was rendered; the expenses are written with \<open>JSON.stringify\<close>, and the model keeps the
  array that \<open>JSON.parse\<close> reads back from the string written.
\<close>

record session_storage =
  ACCESS_TOKEN :: "string option"
  EXPIRES_AT :: "int option"

record local_storage =
  SHEET_ID :: "string option"
  EXPENSES :: "expense list option"
  LOGIN_HINT :: "string option"
  NUMERIC_SHEET_ID :: "int option"

record browser =
  sessionStorage :: session_storage
  localStorage :: local_storage

definition saveSession :: "string \<Rightarrow> int \<Rightarrow> 'a browser_scheme \<Rightarrow> 'a browser_scheme" where
  "saveSession tok expiresAt b =
     b\<lparr> sessionStorage := \<lparr> ACCESS_TOKEN = Some tok, EXPIRES_AT = Some expiresAt \<rparr> \<rparr>"

definition clearSession :: "'a browser_scheme \<Rightarrow> 'a browser_scheme" where
  "clearSession b = b\<lparr> sessionStorage := \<lparr> ACCESS_TOKEN = None, EXPIRES_AT = None \<rparr> \<rparr>"

definition getAccessToken :: "'a browser_scheme \<Rightarrow> string option" where
  "getAccessToken b = ACCESS_TOKEN (sessionStorage b)"

text \<open>\<open>now\<close> is \<open>Date.now()\<close>, in milliseconds.\<close>

definition isTokenExpired :: "int \<Rightarrow> 'a browser_scheme \<Rightarrow> bool" where
  "isTokenExpired now b =
     (case EXPIRES_AT (sessionStorage b) of
        None \<Rightarrow> True
      | Some expiresAt \<Rightarrow> now > expiresAt)"

definition saveLoginHint :: "string \<Rightarrow> 'a browser_scheme \<Rightarrow> 'a browser_scheme" where
  "saveLoginHint email b = b\<lparr> localStorage := (localStorage b)\<lparr> LOGIN_HINT := Some email \<rparr> \<rparr>"

definition getLoginHint :: "'a browser_scheme \<Rightarrow> string" where
  "getLoginHint b = (case LOGIN_HINT (localStorage b) of None \<Rightarrow> [] | Some h \<Rightarrow> h)"

definition saveSheetId :: "string \<Rightarrow> 'a browser_scheme \<Rightarrow> 'a browser_scheme" where
  "saveSheetId sid b = b\<lparr> localStorage := (localStorage b)\<lparr> SHEET_ID := Some sid \<rparr> \<rparr>"

definition getSheetId :: "'a browser_scheme \<Rightarrow> string option" where
  "getSheetId b = SHEET_ID (localStorage b)"

definition saveExpenses :: "expense list \<Rightarrow> 'a browser_scheme \<Rightarrow> 'a browser_scheme" where
  "saveExpenses es b =
     b\<lparr> localStorage := (localStorage b)\<lparr> EXPENSES := Some (map expenseViaJSON es) \<rparr> \<rparr>"

definition getExpenses :: "'a browser_scheme \<Rightarrow> expense list" where
  "getExpenses b = (case EXPENSES (localStorage b) of None \<Rightarrow> [] | Some es \<Rightarrow> es)"

record stored_session =
  ss_accessToken :: "string option"
  ss_sheetId :: "string option"
  ss_expenses :: "expense list"
  ss_loginHint :: string
  tokenExpired :: bool

definition getStoredSession :: "int \<Rightarrow> 'a browser_scheme \<Rightarrow> stored_session" where
  "getStoredSession now b =
     \<lparr> ss_accessToken = getAccessToken b,
       ss_sheetId = getSheetId b,
       ss_expenses = getExpenses b,
       ss_loginHint = getLoginHint b,
       tokenExpired = isTokenExpired now b \<rparr>"

definition saveNumericSheetId :: "int \<Rightarrow> 'a browser_scheme \<Rightarrow> 'a browser_scheme" where
  "saveNumericSheetId n b = b\<lparr> localStorage := (localStorage b)\<lparr> NUMERIC_SHEET_ID := Some n \<rparr> \<rparr>"

definition getNumericSheetId :: "'a browser_scheme \<Rightarrow> int option" where
  "getNumericSheetId b = NUMERIC_SHEET_ID (localStorage b)"

definition clearAll :: "'a browser_scheme \<Rightarrow> 'a browser_scheme" where
  "clearAll b =
     (clearSession b)\<lparr> localStorage :=
        \<lparr> SHEET_ID = None, EXPENSES = None, LOGIN_HINT = None, NUMERIC_SHEET_ID = None \<rparr> \<rparr>"

text \<open>A string as a condition: \<open>null\<close> and the empty string are falsy.\<close>

definition present :: "string option \<Rightarrow> bool" where
  "present v = (case v of None \<Rightarrow> False | Some s \<Rightarrow> s \<noteq> [])"

section \<open>The token lifecycle (the authService module with the waiter queue)\<close>

datatype flow = Silent | Interactive

datatype signal = OnReady | OnSignIn string | OnSignOut | OnSilentFail | OnError string

datatype outcome = Resolved string | Rejected string

text \<open>The argument of \<open>requestAccessToken\<close>; only a silent refresh passes a \<open>login_hint\<close>.\<close>

record token_request =
  prompt :: string
  login_hint :: "string option"

text \<open>
  The module variables, with the browser stores they read and write, and what the module
  does to its surroundings: the timers armed and not yet fired or cleared (handle and due
  time), the requests made to the token client, the callbacks fired, and the promises of
  \<open>waitForToken\<close> settled so far. A caller of \<open>waitForToken\<close> is named by a number; its
  entry in \<open>tokenWaiters\<close> is the pair of \<open>resolve\<close> and \<open>reject\<close> of its promise.
\<close>

record auth_service = browser +
  tokenClient :: bool
  accessToken :: "string option"
  pendingFlowType :: "flow option"
  silentRefreshTimer :: "nat option"
  tokenWaiters :: "nat list"
  timers :: "(nat \<times> int) list"
  timerSeq :: nat
  requests :: "token_request list"
  callbacks :: "signal list"
  settled :: "(nat \<times> outcome) list"

definition SILENT_REFRESH_TIMEOUT_MS :: int where
  "SILENT_REFRESH_TIMEOUT_MS = 5000"

text \<open>The module as loaded, over a given content of the browser stores.\<close>

definition module_loaded :: "session_storage \<Rightarrow> local_storage \<Rightarrow> auth_service" where
  "module_loaded ss ls =
     \<lparr> sessionStorage = ss, localStorage = ls,
       tokenClient = False, accessToken = None, pendingFlowType = None,
       silentRefreshTimer = None, tokenWaiters = [], timers = [], timerSeq = 0,
       requests = [], callbacks = [], settled = [] \<rparr>"

definition initTokenClient :: "auth_service \<Rightarrow> auth_service" where
  "initTokenClient s = s\<lparr> tokenClient := True \<rparr>"

text \<open>
  \<open>init\<close>, once the two libraries have loaded or failed to (\<open>sdk\<close>): the token client is
  created and \<open>onReady\<close> fired, or \<open>onError\<close> with the failure's message.
\<close>

definition init :: "error + unit \<Rightarrow> auth_service \<Rightarrow> auth_service" where
  "init sdk s =
     (case sdk of
        Inr _ \<Rightarrow> (let s1 = initTokenClient s in s1\<lparr> callbacks := callbacks s1 @ [OnReady] \<rparr>)
      | Inl e \<Rightarrow> s\<lparr> callbacks := callbacks s @ [OnError (message e)] \<rparr>)"

definition signIn :: "auth_service \<Rightarrow> auth_service" where
  "signIn s =
     (if \<not> tokenClient s
      then s\<lparr> callbacks := callbacks s @ [OnError ''Google API is still loading - please try again in a moment.''] \<rparr>
      else s\<lparr> pendingFlowType := Some Interactive,
              requests := requests s @ [\<lparr> prompt = [], login_hint = None \<rparr>] \<rparr>)"

text \<open>
  \<open>setTimeout\<close> hands out a fresh handle; the timer is due \<open>SILENT_REFRESH_TIMEOUT_MS\<close>
  after \<open>now\<close>. A timer armed earlier is not cleared here.
\<close>

definition silentRefresh :: "int \<Rightarrow> auth_service \<Rightarrow> auth_service" where
  "silentRefresh now s =
     (if \<not> tokenClient s then s
      else s\<lparr> pendingFlowType := Some Silent,
              silentRefreshTimer := Some (timerSeq s),
              timers := timers s @ [(timerSeq s, now + SILENT_REFRESH_TIMEOUT_MS)],
              timerSeq := Suc (timerSeq s),
              requests := requests s @ [\<lparr> prompt = [], login_hint = Some (getLoginHint s) \<rparr>] \<rparr>)"

text \<open>
  The callback given to \<open>setTimeout\<close> in \<open>silentRefresh\<close>, run when timer \<open>h\<close> is armed and
  due; otherwise nothing happens.
\<close>

definition timerFires :: "int \<Rightarrow> nat \<Rightarrow> auth_service \<Rightarrow> auth_service" where
  "timerFires now h s =
     (case map_of (timers s) h of
        None \<Rightarrow> s
      | Some due \<Rightarrow>
          if now < due then s
          else (let s1 = s\<lparr> timers := filter (\<lambda>t. fst t \<noteq> h) (timers s) \<rparr>
                in if pendingFlowType s1 = Some Silent
                   then s1\<lparr> pendingFlowType := None, callbacks := callbacks s1 @ [OnSilentFail] \<rparr>
                   else s1))"

text \<open>
  \<open>waitForToken()\<close> called by \<open>w\<close>. A promise resolved at once is recorded as settled; otherwise
  \<open>w\<close> is queued.
\<close>

definition waitForToken :: "int \<Rightarrow> nat \<Rightarrow> auth_service \<Rightarrow> auth_service" where
  "waitForToken now w s =
     (if present (accessToken s) \<and> \<not> isTokenExpired now s
      then s\<lparr> settled := settled s @ [(w, Resolved (the (accessToken s)))] \<rparr>
      else (let s1 = s\<lparr> tokenWaiters := tokenWaiters s @ [w] \<rparr>
            in if pendingFlowType s1 \<noteq> Some Silent then silentRefresh now s1 else s1))"

text \<open>
  \<open>signOut\<close>, after the revocation request (whose failure is swallowed) has returned.
\<close>

definition signOut :: "auth_service \<Rightarrow> auth_service" where
  "signOut s =
     (let s1 = s\<lparr> accessToken := None, pendingFlowType := None,
                  sessionStorage := \<lparr> ACCESS_TOKEN = None, EXPIRES_AT = None \<rparr> \<rparr>
      in s1\<lparr> callbacks := callbacks s1 @ [OnSignOut] \<rparr>)"

definition clearSilentTimer :: "auth_service \<Rightarrow> auth_service" where
  "clearSilentTimer s =
     (case silentRefreshTimer s of
        None \<Rightarrow> s
      | Some h \<Rightarrow> s\<lparr> timers := filter (\<lambda>t. fst t \<noteq> h) (timers s), silentRefreshTimer := None \<rparr>)"

definition handleFailedFlow :: "flow option \<Rightarrow> string \<Rightarrow> auth_service \<Rightarrow> auth_service" where
  "handleFailedFlow flowType errorMessage s =
     (let s1 = s\<lparr> settled := settled s @ map (\<lambda>w. (w, Rejected errorMessage)) (tokenWaiters s),
                  tokenWaiters := [] \<rparr>
      in if flowType = Some Silent
         then s1\<lparr> callbacks := callbacks s1 @ [OnSilentFail] \<rparr>
         else s1\<lparr> callbacks := callbacks s1 @ [OnError errorMessage] \<rparr>)"

record token_response =
  error :: "string option"
  access_token :: string
  expires_in :: int

definition onTokenResponse :: "int \<Rightarrow> token_response \<Rightarrow> auth_service \<Rightarrow> auth_service" where
  "onTokenResponse now response s =
     (let s1 = clearSilentTimer s;
          flowType = pendingFlowType s1;
          s2 = s1\<lparr> pendingFlowType := None \<rparr>
      in if present (error response)
         then handleFailedFlow flowType (''OAuth error: '' @ the (error response)) s2
         else (let tok = access_token response;
                   expiresAt = now + (expires_in response - 60) * 1000;
                   s3 = s2\<lparr> accessToken := Some tok,
                            sessionStorage := \<lparr> ACCESS_TOKEN = Some tok, EXPIRES_AT = Some expiresAt \<rparr> \<rparr>;
                   s4 = s3\<lparr> settled := settled s3 @ map (\<lambda>w. (w, Resolved tok)) (tokenWaiters s3),
                            tokenWaiters := [] \<rparr>
               in s4\<lparr> callbacks := callbacks s4 @ [OnSignIn tok] \<rparr>))"

text \<open>The object handed to \<open>error_callback\<close>.\<close>

record auth_error =
  err_error :: "string option"
  err_type :: "string option"
  err_message :: "string option"

definition isSilentAuthError :: "auth_error \<Rightarrow> bool" where
  "isSilentAuthError err = (err_error err = Some ''access_denied'' \<or> err_type err = Some ''popup_closed'')"

text \<open>\<open>err?.message ?? err?.error ?? err?.type ?? JSON.stringify(err)\<close>.\<close>

definition formatAuthError :: "auth_error \<Rightarrow> string" where
  "formatAuthError err =
     (case err_message err of Some m \<Rightarrow> m
      | None \<Rightarrow> (case err_error err of Some e \<Rightarrow> e
         | None \<Rightarrow> (case err_type err of Some t \<Rightarrow> t | None \<Rightarrow> ''{}'')))"

definition onTokenError :: "auth_error \<Rightarrow> auth_service \<Rightarrow> auth_service" where
  "onTokenError err s =
     (let s1 = clearSilentTimer s;
          flowType = pendingFlowType s1;
          s2 = s1\<lparr> pendingFlowType := None \<rparr>
      in if isSilentAuthError err
         then (if flowType = Some Silent then s2
               else if err_type err = Some ''popup_closed'' then s2
               else s2\<lparr> callbacks := callbacks s2 @
                          [OnError ''Access was denied. Please grant the required permissions.''] \<rparr>)
         else handleFailedFlow flowType (''OAuth error: '' @ formatAuthError err) s2)"


section \<open>helpers/sheetsHelpers.js and services/sheetsService.js: the remote store\<close>

text \<open>
  The requests the helpers send, by endpoint: the spreadsheet by id (with the \<open>fields\<close>
  asked for), a range of values read, written or appended to, a batch update, the creation of
  a spreadsheet with its title and sheet titles, and the Drive search by exact name.
\<close>

datatype request =
    GetSpreadsheet string string
  | GetValues string string
  | PutValues string string "jsval list list"
  | AppendValues string string "jsval list list"
  | BatchUpdate string "delete_dimension list"
  | CreateSpreadsheet string "string list"
  | SearchFiles string

definition SHEET_NAME :: string where
  "SHEET_NAME = ''spends''"

definition SPREADSHEET_TITLE :: string where
  "SPREADSHEET_TITLE = ''SpenGo''"

text \<open>
  The metadata asked for with \<open>fields=sheets.properties\<close> is the list of the sheets' numeric
  ids; \<open>metadata.sheets[0].properties.sheetId\<close> throws when there is no first sheet.
\<close>

definition extractNumericSheetId :: "int list \<Rightarrow> error + int" where
  "extractNumericSheetId metadata =
     (case metadata of
        [] \<Rightarrow> Inl (TypeError ''Cannot read properties of undefined'')
      | n # _ \<Rightarrow> Inr n)"

text \<open>
  Each asynchronous helper takes the replies of the requests it awaits (\<open>Inl\<close> a failure of the
  request) and returns its own result with the requests it sent, in order.
\<close>

definition verifySpreadsheet :: "error + unit \<Rightarrow> string \<Rightarrow> bool \<times> request list" where
  "verifySpreadsheet reply spreadsheetId =
     ((case reply of Inl _ \<Rightarrow> False | Inr _ \<Rightarrow> True),
      [GetSpreadsheet spreadsheetId ''spreadsheetId''])"

definition createSpreadsheet ::
  "error + string \<Rightarrow> error + unit \<Rightarrow> string \<Rightarrow> string \<Rightarrow> (error + string) \<times> request list" where
  "createSpreadsheet created written title sheetName =
     (case created of
        Inl e \<Rightarrow> (Inl e, [CreateSpreadsheet title [sheetName]])
      | Inr newId \<Rightarrow>
          (let reqs = [CreateSpreadsheet title [sheetName],
                       PutValues newId (rangeA1 sheetName ''A1:E1'') headerRow]
           in case written of
                Inl e \<Rightarrow> (Inl e, reqs)
              | Inr _ \<Rightarrow> (Inr newId, reqs)))"

text \<open>The reply of the search is \<open>data.files?.[0]?.id\<close>; a failure is logged and gives \<open>null\<close>.\<close>

definition findExistingSpreadsheet :: "error + string option \<Rightarrow> string \<Rightarrow> string option \<times> request list" where
  "findExistingSpreadsheet reply title =
     ((case reply of
         Inl _ \<Rightarrow> None
       | Inr fileId \<Rightarrow> (if present fileId then fileId else None)),
      [SearchFiles title])"

definition fetchExpenses ::
  "(string \<Rightarrow> jsnumber) \<Rightarrow> (nat \<Rightarrow> string) \<Rightarrow> error + jsval list list option \<Rightarrow> string \<Rightarrow> string
   \<Rightarrow> (error + expense list) \<times> request list" where
  "fetchExpenses pf us reply spreadsheetId sheetName =
     ((case reply of Inl e \<Rightarrow> Inl e | Inr values \<Rightarrow> Inr (rowsToExpenses pf us values)),
      [GetValues spreadsheetId (rangeA1 sheetName ''A2:E1000'')])"

definition insertExpense :: "error + unit \<Rightarrow> string \<Rightarrow> string \<Rightarrow> expense \<Rightarrow> (error + unit) \<times> request list" where
  "insertExpense reply spreadsheetId sheetName e =
     (reply, [AppendValues spreadsheetId (rangeA1 sheetName ''A:E'') [expenseToRow e]])"

text \<open>
  \<open>removeExpenseRow\<close>: \<open>colA\<close> and \<open>meta\<close> are the replies of the two reads awaited together (the
  second is sent only when no numeric sheet id is cached), \<open>deleted\<close> the reply of the batch
  update. The result comes with the stores as left and the requests sent.
\<close>

definition removeExpenseRow ::
  "error + jsval list list option \<Rightarrow> error + int list \<Rightarrow> error + unit \<Rightarrow>
   string \<Rightarrow> string \<Rightarrow> string \<Rightarrow> 'a browser_scheme \<Rightarrow>
   (error + unit) \<times> 'a browser_scheme \<times> request list" where
  "removeExpenseRow colA meta deleted spreadsheetId sheetName expenseId b =
     (let cachedNumericId = getNumericSheetId b;
          reads = GetValues spreadsheetId (rangeA1 sheetName ''A2:A1000'') #
                  (if cachedNumericId \<noteq> None then []
                   else [GetSpreadsheet spreadsheetId ''sheets.properties''])
      in case colA of
           Inl e \<Rightarrow> (Inl e, b, reads)
         | Inr values \<Rightarrow>
             (case (if cachedNumericId \<noteq> None then Inr [] else meta) of
                Inl e \<Rightarrow> (Inl e, b, reads)
              | Inr metadata \<Rightarrow>
                  (let rowIndex = findRowIndex (case values of None \<Rightarrow> [] | Some rows \<Rightarrow> rows) expenseId
                   in if rowIndex = - 1 then (Inr (), b, reads)
                      else (case (case cachedNumericId of
                                    Some n \<Rightarrow> Inr n
                                  | None \<Rightarrow> extractNumericSheetId metadata) of
                              Inl e \<Rightarrow> (Inl e, b, reads)
                            | Inr numericSheetId \<Rightarrow>
                                (let b1 = (if cachedNumericId = None
                                           then saveNumericSheetId numericSheetId b else b);
                                     reqs = reads @ [BatchUpdate spreadsheetId
                                              [buildDeleteRowRequest numericSheetId rowIndex]]
                                 in (case deleted of
                                       Inl e \<Rightarrow> (Inl e, b1, reqs)
                                     | Inr _ \<Rightarrow> (Inr (), b1, reqs)))))))"

text \<open>
  \<open>appendExpense\<close> and \<open>deleteExpense\<close> of services/sheetsService.js, which the controllers
  call; the latter is \<open>sheetsDeleteExpense\<close> here, the controller having a function of the
  same name. The replies of the three requests \<open>removeExpenseRow\<close> may send come together.
\<close>

record delete_replies =
  columnRead :: "error + jsval list list option"
  metadataRead :: "error + int list"
  rowDeleted :: "error + unit"

definition appendExpense :: "error + unit \<Rightarrow> string \<Rightarrow> expense \<Rightarrow> (error + unit) \<times> request list" where
  "appendExpense reply spreadsheetId e = insertExpense reply spreadsheetId SHEET_NAME e"

definition sheetsDeleteExpense ::
  "delete_replies \<Rightarrow> string \<Rightarrow> string \<Rightarrow> 'a browser_scheme \<Rightarrow>
   (error + unit) \<times> 'a browser_scheme \<times> request list" where
  "sheetsDeleteExpense r spreadsheetId expenseId b =
     removeExpenseRow (columnRead r) (metadataRead r) (rowDeleted r)
       spreadsheetId SHEET_NAME expenseId b"

text \<open>The replies \<open>resolveSpreadsheet\<close> may await.\<close>

record replies =
  verified :: "error + unit"
  searched :: "error + string option"
  created :: "error + string"
  headerWritten :: "error + unit"

text \<open>
  \<open>resolveSpreadsheet\<close> from the search on: \<open>sent\<close> are the requests of the verification, if
  there was one. The result is the pair of \<open>spreadsheetId\<close> and \<open>isNew\<close>.
\<close>

definition searchOrCreate ::
  "replies \<Rightarrow> request list \<Rightarrow> 'a browser_scheme \<Rightarrow>
   (error + string \<times> bool) \<times> 'a browser_scheme \<times> request list" where
  "searchOrCreate r sent b =
     (case findExistingSpreadsheet (searched r) SPREADSHEET_TITLE of
        (Some found, reqs) \<Rightarrow> (Inr (found, False), saveSheetId found b, sent @ reqs)
      | (None, reqs) \<Rightarrow>
          (case createSpreadsheet (created r) (headerWritten r) SPREADSHEET_TITLE SHEET_NAME of
             (Inl e, reqs') \<Rightarrow> (Inl e, b, sent @ reqs @ reqs')
           | (Inr newId, reqs') \<Rightarrow> (Inr (newId, True), saveSheetId newId b, sent @ reqs @ reqs')))"

definition resolveSpreadsheet ::
  "replies \<Rightarrow> 'a browser_scheme \<Rightarrow> (error + string \<times> bool) \<times> 'a browser_scheme \<times> request list" where
  "resolveSpreadsheet r b =
     (case getSheetId b of
        None \<Rightarrow> searchOrCreate r [] b
      | Some stored \<Rightarrow>
          if stored = [] then searchOrCreate r [] b
          else (case verifySpreadsheet (verified r) stored of
                  (True, reqs) \<Rightarrow> (Inr (stored, False), b, reqs)
                | (False, reqs) \<Rightarrow>
                    searchOrCreate r reqs (b\<lparr> localStorage := (localStorage b)\<lparr> SHEET_ID := None \<rparr> \<rparr>)))"

text \<open>The number of spreadsheets a run asked the service to create.\<close>

definition creations :: "request list \<Rightarrow> nat" where
  "creations reqs = length (filter (\<lambda>q. case q of CreateSpreadsheet _ _ \<Rightarrow> True | _ \<Rightarrow> False) reqs)"

definition deletions :: "request list \<Rightarrow> nat" where
  "deletions reqs = length (filter (\<lambda>q. case q of BatchUpdate _ _ \<Rightarrow> True | _ \<Rightarrow> False) reqs)"

section \<open>controllers\<close>

datatype auth_status = Unknown | Restoring | Ready | Unauthenticated

text \<open>A call of the sheets service by a controller: token, spreadsheet id, argument.\<close>

datatype service_call =
    AppendExpense "string option" "string option" expense
  | DeleteExpense "string option" "string option" string

text \<open>
  \<open>STATE\<close> with the browser stores, the parts of the page the controllers switch, the
  notifications shown (text and kind) and the service calls made. A notification's text is
  its localisation key, followed by what the code appends to it.
\<close>

record app = browser +
  stateAccessToken :: "string option"
  authStatus :: auth_status
  spreadsheetId :: "string option"
  expenses :: "expense list"
  currentScreen :: string
  selectedCat :: "string option"
  navEnabled :: bool
  signInDisabled :: bool
  modalAddOpen :: bool
  submitDisabled :: bool
  toasts :: "(string \<times> string) list"
  serviceCalls :: "service_call list"

definition showToast :: "string \<Rightarrow> string \<Rightarrow> app \<Rightarrow> app" where
  "showToast text kind a = a\<lparr> toasts := toasts a @ [(text, kind)] \<rparr>"

definition showScreen :: "string \<Rightarrow> app \<Rightarrow> app" where
  "showScreen name a = a\<lparr> currentScreen := name \<rparr>"

definition setNavEnabled :: "bool \<Rightarrow> app \<Rightarrow> app" where
  "setNavEnabled enabled a = a\<lparr> navEnabled := enabled \<rparr>"

definition enableSignInButton :: "app \<Rightarrow> app" where
  "enableSignInButton a = a\<lparr> signInDisabled := False \<rparr>"

subsection \<open>controllers/authController.js\<close>

definition toUnauthenticated :: "app \<Rightarrow> app" where
  "toUnauthenticated a =
     enableSignInButton (showScreen ''auth'' (setNavEnabled False (a\<lparr> authStatus := Unauthenticated \<rparr>)))"

definition onSilentFail :: "app \<Rightarrow> app" where
  "onSilentFail a = toUnauthenticated ((clearSession a)\<lparr> stateAccessToken := None \<rparr>)"

subsection \<open>controllers/expenseController.js\<close>

text \<open>\<open>STATE.spreadsheetId\<close> as it appears in a request's address: \<open>null\<close> is spelt out.\<close>

definition idText :: "string option \<Rightarrow> string" where
  "idText sid = (case sid of None \<Rightarrow> ''null'' | Some s \<Rightarrow> s)"

text \<open>
  \<open>submitExpense\<close> up to the point where it awaits the service: \<open>amt\<close> is the amount parsed
  from the input field, \<open>cmt\<close> the trimmed comment, \<open>u\<close> and \<open>today\<close> the values of \<open>uuid()\<close> and
  \<open>todayStr()\<close>. It returns the expense sent, or \<open>None\<close> when validation stopped it.
\<close>

definition submitExpense_begin :: "jsnumber \<Rightarrow> string \<Rightarrow> string \<Rightarrow> string \<Rightarrow> app \<Rightarrow> expense option \<times> app" where
  "submitExpense_begin amt cmt u today a =
     (if \<not> num_truthy amt \<or> num_le_zero amt then (None, showToast ''toast.enter_amount'' ''error'' a)
      else (case selectedCat a of
              None \<Rightarrow> (None, showToast ''toast.select_cat'' ''error'' a)
            | Some cat \<Rightarrow>
                if cat = [] then (None, showToast ''toast.select_cat'' ''error'' a)
                else (let e = \<lparr> ident = Str u, date = Str today, category = Str cat,
                                amount = Number amt, comment = Str cmt \<rparr>
                      in (Some e,
                          a\<lparr> submitDisabled := True,
                             serviceCalls := serviceCalls a @
                               [AppendExpense (stateAccessToken a) (spreadsheetId a) e] \<rparr>))))"

text \<open>
  The rest of \<open>submitExpense\<close>, once the request sent by the service has been answered with
  \<open>reply\<close>.
\<close>

definition submitExpense_end :: "expense \<Rightarrow> error + unit \<Rightarrow> app \<Rightarrow> app" where
  "submitExpense_end e reply a =
     (let a1 = (case fst (appendExpense reply (idText (spreadsheetId a)) e) of
                  Inr _ \<Rightarrow>
                    (let a2 = a\<lparr> expenses := expenses a @ [e] \<rparr>;
                         a3 = saveExpenses (expenses a2) a2;
                         a4 = a3\<lparr> modalAddOpen := False \<rparr>
                     in showToast ''toast.added'' ''success'' a4)
                | Inl err \<Rightarrow> showToast (''toast.error_prefix'' @ message err) ''error'' a)
      in a1\<lparr> submitDisabled := False \<rparr>)"

definition submitExpense :: "jsnumber \<Rightarrow> string \<Rightarrow> string \<Rightarrow> string \<Rightarrow> error + unit \<Rightarrow> app \<Rightarrow> app" where
  "submitExpense amt cmt u today reply a =
     (case submitExpense_begin amt cmt u today a of
        (None, a1) \<Rightarrow> a1
      | (Some e, a1) \<Rightarrow> submitExpense_end e reply a1)"

text \<open>
  \<open>deleteExpense\<close> of controllers/expenseController.js, after the removal animation: up to the
  point where it awaits the service, and from there on. The service runs over the
  application's stores, with the replies \<open>r\<close> to the requests it sends, and leaves in them
  what \<open>removeExpenseRow\<close> writes.
\<close>

definition deleteExpense_begin :: "string \<Rightarrow> app \<Rightarrow> app" where
  "deleteExpense_begin i a =
     (let a1 = a\<lparr> expenses := filter (\<lambda>e. ident e \<noteq> Str i) (expenses a) \<rparr>;
          a2 = saveExpenses (expenses a1) a1
      in a2\<lparr> serviceCalls := serviceCalls a2 @ [DeleteExpense (stateAccessToken a2) (spreadsheetId a2) i] \<rparr>)"

definition deleteExpense_end :: "string \<Rightarrow> delete_replies \<Rightarrow> app \<Rightarrow> app" where
  "deleteExpense_end i r a =
     (case sheetsDeleteExpense r (idText (spreadsheetId a)) i a of
        (Inr _, a1, _) \<Rightarrow> showToast ''toast.deleted'' ''success'' a1
      | (Inl _, a1, _) \<Rightarrow> showToast ''toast.delete_error'' ''error'' a1)"

definition deleteExpense :: "string \<Rightarrow> delete_replies \<Rightarrow> app \<Rightarrow> app" where
  "deleteExpense i r a = deleteExpense_end i r (deleteExpense_begin i a)"

text \<open>
  \<open>deleteExpense\<close> of the other copy of the expense controller (the one written over the
  storage service), in the same two parts.
\<close>

definition deleteExpense2_begin :: "string \<Rightarrow> app \<Rightarrow> app" where
  "deleteExpense2_begin i a =
     a\<lparr> serviceCalls := serviceCalls a @ [DeleteExpense (stateAccessToken a) (spreadsheetId a) i] \<rparr>"

definition deleteExpense2_end :: "string \<Rightarrow> delete_replies \<Rightarrow> app \<Rightarrow> app" where
  "deleteExpense2_end i r a =
     (case sheetsDeleteExpense r (idText (spreadsheetId a)) i a of
        (Inr _, a0, _) \<Rightarrow>
          (let a1 = a0\<lparr> expenses := filter (\<lambda>e. ident e \<noteq> Str i) (expenses a0) \<rparr>;
               a2 = saveExpenses (expenses a1) a1
           in showToast ''toast.deleted'' ''success'' a2)
      | (Inl _, a0, _) \<Rightarrow> showToast ''toast.delete_error'' ''error'' a0)"

definition deleteExpense2 :: "string \<Rightarrow> delete_replies \<Rightarrow> app \<Rightarrow> app" where
  "deleteExpense2 i r a = deleteExpense2_end i r (deleteExpense2_begin i a)"

text \<open>The condition under which \<open>waitForToken\<close> answers at once: \<open>_accessToken && !isTokenExpired()\<close>.\<close>

definition hasValidToken :: "int \<Rightarrow> auth_service \<Rightarrow> bool" where
  "hasValidToken now s = (present (accessToken s) \<and> \<not> isTokenExpired now s)"

text \<open>Calls of \<open>waitForToken\<close> one after the other, each with its time and its caller.\<close>

fun waitForTokens :: "(int \<times> nat) list \<Rightarrow> auth_service \<Rightarrow> auth_service" where
  "waitForTokens [] s = s"
| "waitForTokens ((now, w) # calls) s = waitForTokens calls (waitForToken now w s)"

definition silentFlowsStarted :: "auth_service \<Rightarrow> nat" where
  "silentFlowsStarted s = length (filter (\<lambda>q. login_hint q \<noteq> None) (requests s))"

text \<open>
  The states the module can be in: loaded over any stores, then any sequence of its exported
  operations, of timers falling due, of the token client's two callbacks (which exist once
  the client does), and of writes to the stores by the rest of the application.
\<close>

inductive reachable :: "auth_service \<Rightarrow> bool" where
  loaded: "reachable (module_loaded ss ls)"
| started: "reachable s \<Longrightarrow> reachable (init sdk s)"
| sign_in: "reachable s \<Longrightarrow> reachable (signIn s)"
| sign_out: "reachable s \<Longrightarrow> reachable (signOut s)"
| refresh: "reachable s \<Longrightarrow> reachable (silentRefresh now s)"
| wait: "reachable s \<Longrightarrow> reachable (waitForToken now w s)"
| timer: "reachable s \<Longrightarrow> reachable (timerFires now h s)"
| response: "reachable s \<Longrightarrow> tokenClient s \<Longrightarrow> reachable (onTokenResponse now r s)"
| failure: "reachable s \<Longrightarrow> tokenClient s \<Longrightarrow> reachable (onTokenError err s)"
| stores: "reachable s \<Longrightarrow> reachable (s\<lparr> sessionStorage := ss, localStorage := ls \<rparr>)"

section \<open>Example states\<close>

definition no_session :: session_storage where
  "no_session = \<lparr> ACCESS_TOKEN = None, EXPIRES_AT = None \<rparr>"

definition no_local :: local_storage where
  "no_local = \<lparr> SHEET_ID = None, EXPENSES = None, LOGIN_HINT = None, NUMERIC_SHEET_ID = None \<rparr>"

definition empty_browser :: browser where
  "empty_browser = \<lparr> sessionStorage = no_session, localStorage = no_local \<rparr>"

text \<open>The token service once its client exists, over empty stores.\<close>

definition ready_service :: auth_service where
  "ready_service = init (Inr ()) (module_loaded no_session no_local)"

text \<open>
  \<open>new AppState()\<close> over empty stores, then signed in to spreadsheet \<open>S1\<close> with the add dialog
  open on its default category.
\<close>

definition new_app :: app where
  "new_app =
     \<lparr> sessionStorage = no_session, localStorage = no_local,
       stateAccessToken = None, authStatus = Unknown, spreadsheetId = None, expenses = [],
       currentScreen = ''auth'', selectedCat = None, navEnabled = False, signInDisabled = True,
       modalAddOpen = False, submitDisabled = False, toasts = [], serviceCalls = [] \<rparr>"

definition adding_app :: app where
  "adding_app =
     new_app\<lparr> stateAccessToken := Some ''T'', authStatus := Ready, spreadsheetId := Some ''S1'',
              currentScreen := ''main'', selectedCat := Some ''food'', navEnabled := True,
              modalAddOpen := True \<rparr>"

definition lunch :: expense where
  "lunch = \<lparr> ident = Str ''X'', date = Str ''2026-01-05'', category = Str ''food'',
             amount = Number (Fin (25 / 2)), comment = Str [] \<rparr>"


definition dinner :: expense where
  "dinner = \<lparr> ident = Str ''Y'', date = Str ''2026-01-04'', category = Str ''fun'',
              amount = Number (Fin 30), comment = Str ''pizza'' \<rparr>"

text \<open>The same application with one expense cached, and with two.\<close>

definition listed_app :: app where
  "listed_app =
     adding_app\<lparr> localStorage := no_local\<lparr> SHEET_ID := Some ''S1'', EXPENSES := Some [dinner] \<rparr>,
                 expenses := [dinner] \<rparr>"

definition both_app :: app where
  "both_app =
     adding_app\<lparr> localStorage := no_local\<lparr> SHEET_ID := Some ''S1'', EXPENSES := Some [dinner, lunch] \<rparr>,
                 expenses := [dinner, lunch], modalAddOpen := False \<rparr>"

text \<open>
  Replies to a deletion of \<open>X\<close>: the column holds \<open>Y\<close> and \<open>X\<close>, the sheet's numeric id is 7,
  and the batch update fails.
\<close>

definition failing_delete :: delete_replies where
  "failing_delete =
     \<lparr> columnRead = Inr (Some [[Str ''Y''], [Str ''X'']]), metadataRead = Inr [7],
       rowDeleted = Inl (Error ''HTTP 500'') \<rparr>"

text \<open>A session being restored for spreadsheet \<open>S1\<close>, with a stale token in the tab's store.\<close>

definition restoring_app :: app where
  "restoring_app =
     new_app\<lparr> sessionStorage := \<lparr> ACCESS_TOKEN = Some ''T'', EXPIRES_AT = Some 1000 \<rparr>,
              localStorage := \<lparr> SHEET_ID = Some ''S1'', EXPENSES = Some [lunch],
                                LOGIN_HINT = Some ''a@b.c'', NUMERIC_SHEET_ID = Some 0 \<rparr>,
              authStatus := Restoring, spreadsheetId := Some ''S1'', expenses := [lunch],
              currentScreen := ''main'', navEnabled := True \<rparr>"

section \<open>Row location (C5)\<close>

lemma findIndex_first:
  "k < length xs \<Longrightarrow> P (xs ! k) \<Longrightarrow> (\<forall>j<k. \<not> P (xs ! j)) \<Longrightarrow> findIndex P xs = int k"
proof (induction xs arbitrary: k)
  case Nil
  then show ?case by simp
next
  case (Cons x xs)
  show ?case
  proof (cases k)
    case 0
    with Cons.prems show ?thesis by simp
  next
    case (Suc m)
    with Cons.prems have nx: "\<not> P x" by auto
    from Suc Cons.prems have "m < length xs" "P (xs ! m)" "\<forall>j<m. \<not> P (xs ! j)" by auto
    then have "findIndex P xs = int m" by (rule Cons.IH)
    with nx Suc show ?thesis by (simp add: Let_def)
  qed
qed

lemma findIndex_absent: "(\<forall>x \<in> set xs. \<not> P x) \<Longrightarrow> findIndex P xs = - 1"
  by (induction xs) (auto simp: Let_def)

lemma findRowIndex_absent:
  "(\<forall>r \<in> set rows. cell r 0 \<noteq> Str x) \<Longrightarrow> findRowIndex rows x = - 1"
  by (simp add: findRowIndex_def findIndex_absent)

text \<open>
  C5, as the code has it. \<open>findIndex\<close> stops at the first match, so the row computed for an id
  is the one of its first occurrence: when the first row of the identity column whose first
  cell is the id is at zero-based offset \<open>k\<close>, the sheet row index is \<open>k + 1\<close> and the
  delete-dimension request has \<open>startIndex = k + 1\<close> and \<open>endIndex = k + 2\<close>.
\<close>

theorem findRowIndex_first_occurrence:
  assumes "k < length idColumn"
    and "cell (idColumn ! k) 0 = Str x"
    and "\<forall>j<k. cell (idColumn ! j) 0 \<noteq> Str x"
  shows "findRowIndex idColumn x = int k + 1 \<and>
         buildDeleteRowRequest n (findRowIndex idColumn x) =
           \<lparr> sheetId = n, dimension = ''ROWS'', startIndex = int k + 1, endIndex = int k + 2 \<rparr>"
proof -
  have "findIndex (\<lambda>r. cell r 0 = Str x) idColumn = int k"
    using assms by (intro findIndex_first) auto
  then have "findRowIndex idColumn x = int k + 1"
    by (simp add: findRowIndex_def Let_def)
  then show ?thesis by (simp add: buildDeleteRowRequest_def)
qed

text \<open>
  The scenario of the specification: column \<open>["A","X","C"]\<close> and id \<open>"X"\<close> give row index 2 and a
  request from 2 to 3.
\<close>

theorem findRowIndex_scenario:
  "findRowIndex [[Str ''A''], [Str ''X''], [Str ''C'']] ''X'' = 2 \<and>
   buildDeleteRowRequest 0 (findRowIndex [[Str ''A''], [Str ''X''], [Str ''C'']] ''X'') =
     \<lparr> sheetId = 0, dimension = ''ROWS'', startIndex = 2, endIndex = 3 \<rparr>"
proof -
  have "(1::nat) < length [[Str ''A''], [Str ''X''], [Str ''C'']]" by simp
  moreover have "cell ([[Str ''A''], [Str ''X''], [Str ''C'']] ! 1) 0 = Str ''X''"
    by (simp add: cell_def)
  moreover have "\<forall>j<(1::nat). cell ([[Str ''A''], [Str ''X''], [Str ''C'']] ! j) 0 \<noteq> Str ''X''"
    by (simp add: cell_def)
  ultimately show ?thesis
    using findRowIndex_first_occurrence [of 1 "[[Str ''A''], [Str ''X''], [Str ''C'']]" "''X''" 0]
    by auto
qed

text \<open>
  An id present at offset 1 whose row index is not 2: the column holds it at offset 0 as well,
  and that is the row found.
\<close>

theorem findRowIndex_duplicate_id:
  "cell ([[Str ''X''], [Str ''X'']] ! 1) 0 = Str ''X'' \<and>
   findRowIndex [[Str ''X''], [Str ''X'']] ''X'' \<noteq> 1 + 1 \<and>
   startIndex (buildDeleteRowRequest 0 (findRowIndex [[Str ''X''], [Str ''X'']] ''X'')) \<noteq> 1 + 1"
  by (simp add: cell_def findRowIndex_def buildDeleteRowRequest_def)

section \<open>Rows and expenses (C7)\<close>














lemma valid_amount: "(\<not> (\<not> num_truthy amt \<or> num_le_zero amt)) = num_gt_zero amt"
  by (cases amt) auto


text \<open>
  What \<open>rowToExpense\<close> puts in place of a missing id or category: the identifier \<open>uuid()\<close>
  draws, and \<open>other\<close>.
\<close>

lemma rowToExpense_fallbacks:
  assumes "rowToExpense pf u row = Some e"
  shows "(\<not> truthy (cell row 0) \<longrightarrow> ident e = Str u) \<and>
         (truthy (cell row 0) \<longrightarrow> ident e = cell row 0) \<and>
         (\<not> truthy (cell row 2) \<longrightarrow> category e = Str ''other'') \<and>
         (truthy (cell row 2) \<longrightarrow> category e = cell row 2)"
  using assms
  by (auto simp: rowToExpense_def Let_def js_or_def split: if_splits)



section \<open>Silent failure leaves the durable keys alone (C8)\<close>

text \<open>
  C8. \<open>onSilentFail\<close> empties the tab-scoped store (access token and expiry), forgets the token
  held in \<open>STATE\<close> and sets the status to unauthenticated; the durable store is left as it
  was, and with it the spreadsheet id, the cached expenses, the login hint and the cached
  numeric sheet id, as are the spreadsheet id and the expenses held in \<open>STATE\<close>.
\<close>

theorem onSilentFail_keeps_durable_keys:
  "sessionStorage (onSilentFail a) = \<lparr> ACCESS_TOKEN = None, EXPIRES_AT = None \<rparr> \<and>
   getAccessToken (onSilentFail a) = None \<and>
   stateAccessToken (onSilentFail a) = None \<and>
   authStatus (onSilentFail a) = Unauthenticated \<and>
   localStorage (onSilentFail a) = localStorage a \<and>
   getSheetId (onSilentFail a) = getSheetId a \<and>
   getExpenses (onSilentFail a) = getExpenses a \<and>
   getLoginHint (onSilentFail a) = getLoginHint a \<and>
   getNumericSheetId (onSilentFail a) = getNumericSheetId a \<and>
   spreadsheetId (onSilentFail a) = spreadsheetId a \<and>
   expenses (onSilentFail a) = expenses a"
  by (simp add: onSilentFail_def toUnauthenticated_def enableSignInButton_def showScreen_def
      setNavEnabled_def clearSession_def getAccessToken_def getSheetId_def getExpenses_def
      getLoginHint_def getNumericSheetId_def)

text \<open>
  The scenario of the specification: spreadsheet \<open>S1\<close> being restored, the silent refresh
  fails; the status becomes unauthenticated and \<open>S1\<close> stays stored.
\<close>

theorem onSilentFail_scenario:
  "authStatus restoring_app = Restoring \<and>
   authStatus (onSilentFail restoring_app) = Unauthenticated \<and>
   sessionStorage (onSilentFail restoring_app) = no_session \<and>
   getSheetId (onSilentFail restoring_app) = Some ''S1'' \<and>
   getExpenses (onSilentFail restoring_app) = [lunch] \<and>
   getLoginHint (onSilentFail restoring_app) = ''a@b.c''"
  using onSilentFail_keeps_durable_keys [of restoring_app]
  by (simp add: restoring_app_def new_app_def no_session_def getSheetId_def getExpenses_def
      getLoginHint_def)

section \<open>Adding an expense (C1)\<close>

lemma viaJSON_Str [simp]: "viaJSON (Str s) = Str s"
  by simp

lemma viaJSON_eq_Str: "viaJSON v = Str s \<longleftrightarrow> v = Str s"
proof (cases v)
  case (Number n)
  then show ?thesis by (cases n) simp_all
qed simp_all

lemma expenseViaJSON_ident: "ident (expenseViaJSON e) = Str s \<longleftrightarrow> ident e = Str s"
  by (simp add: expenseViaJSON_def viaJSON_eq_Str)

lemma submitExpense_begin_valid:
  assumes "num_gt_zero amt" and "selectedCat a = Some cat" and "cat \<noteq> []"
  shows "submitExpense_begin amt cmt u today a =
           (Some \<lparr> ident = Str u, date = Str today, category = Str cat, amount = Number amt,
                    comment = Str cmt \<rparr>,
            a\<lparr> submitDisabled := True,
               serviceCalls := serviceCalls a @ [AppendExpense (stateAccessToken a) (spreadsheetId a)
                 \<lparr> ident = Str u, date = Str today, category = Str cat, amount = Number amt,
                   comment = Str cmt \<rparr>] \<rparr>)"
proof -
  from assms(1) have "\<not> (\<not> num_truthy amt \<or> num_le_zero amt)"
    by (simp only: valid_amount)
  with assms(2,3) show ?thesis
    by (simp add: submitExpense_begin_def Let_def)
qed

text \<open>
  C1, as the code has it. For a valid draft (amount above zero, a category selected)
  \<open>submitExpense\<close> first calls the service, with the cache in \<open>STATE\<close> and the stored cache
  untouched; when the append succeeds the expense is put at the end of the cache in \<open>STATE\<close>
  and that cache is written to the store, where it reads back as its JSON form (the expense
  itself unchanged when its amount is finite); when the append fails neither cache changes,
  so the expense is in neither, and an error notification is shown.
\<close>

theorem submitExpense_remote_first:
  fixes amt cmt u today cat a e
  defines "e \<equiv> \<lparr> ident = Str u, date = Str today, category = Str cat, amount = Number amt,
                  comment = Str cmt \<rparr>"
  assumes "num_gt_zero amt" and "selectedCat a = Some cat" and "cat \<noteq> []"
  shows "fst (submitExpense_begin amt cmt u today a) = Some e \<and>
         serviceCalls (snd (submitExpense_begin amt cmt u today a)) =
           serviceCalls a @ [AppendExpense (stateAccessToken a) (spreadsheetId a) e] \<and>
         expenses (snd (submitExpense_begin amt cmt u today a)) = expenses a \<and>
         localStorage (snd (submitExpense_begin amt cmt u today a)) = localStorage a \<and>
         expenses (submitExpense amt cmt u today (Inr ()) a) = expenses a @ [e] \<and>
         getExpenses (submitExpense amt cmt u today (Inr ()) a) =
           map expenseViaJSON (expenses a @ [e]) \<and>
         (amt = Fin r \<longrightarrow> expenseViaJSON e = e) \<and>
         expenses (submitExpense amt cmt u today (Inl err) a) = expenses a \<and>
         localStorage (submitExpense amt cmt u today (Inl err) a) = localStorage a \<and>
         toasts (submitExpense amt cmt u today (Inl err) a) =
           toasts a @ [(''toast.error_prefix'' @ message err, ''error'')]"
  using submitExpense_begin_valid [OF assms(2-4), of cmt u today]
  by (simp add: e_def submitExpense_def submitExpense_end_def appendExpense_def insertExpense_def
      showToast_def saveExpenses_def getExpenses_def expenseViaJSON_def Let_def)

text \<open>
  The draft of the specification's scenario, accepted by the service, on a cache that holds
  one expense already.
\<close>

theorem submitExpense_accepted:
  "expenses (submitExpense (Fin (25 / 2)) [] ''X'' ''2026-01-05'' (Inr ()) listed_app) = [dinner, lunch] \<and>
   getExpenses (submitExpense (Fin (25 / 2)) [] ''X'' ''2026-01-05'' (Inr ()) listed_app) = [dinner, lunch] \<and>
   expenses (snd (submitExpense_begin (Fin (25 / 2)) [] ''X'' ''2026-01-05'' listed_app)) = [dinner] \<and>
   getExpenses (snd (submitExpense_begin (Fin (25 / 2)) [] ''X'' ''2026-01-05'' listed_app)) = [dinner]"
proof -
  have "num_gt_zero (Fin (25 / 2))" by simp
  moreover have "selectedCat listed_app = Some ''food''"
    by (simp add: listed_app_def adding_app_def)
  moreover have "''food'' \<noteq> []" by simp
  ultimately show ?thesis
    using submitExpense_remote_first [of "Fin (25 / 2)" listed_app "''food''" "[]" "''X''" "''2026-01-05''"]
    by (simp add: lunch_def dinner_def listed_app_def adding_app_def new_app_def no_local_def
        getExpenses_def expenseViaJSON_def)
qed

text \<open>
  The scenario of the specification: the draft of amount 12.5 and category \<open>food\<close> is valid,
  the append fails, and the expense is in neither cache; nor was it there while the append
  was pending.
\<close>

theorem submitExpense_failure_drops_record:
  "num_gt_zero (Fin (25 / 2)) \<and>
   selectedCat adding_app = Some ''food'' \<and>
   fst (submitExpense_begin (Fin (25 / 2)) [] ''X'' ''2026-01-05'' adding_app) = Some lunch \<and>
   lunch \<notin> set (expenses (snd (submitExpense_begin (Fin (25 / 2)) [] ''X'' ''2026-01-05'' adding_app))) \<and>
   lunch \<notin> set (getExpenses (snd (submitExpense_begin (Fin (25 / 2)) [] ''X'' ''2026-01-05'' adding_app))) \<and>
   lunch \<notin> set (expenses (submitExpense (Fin (25 / 2)) [] ''X'' ''2026-01-05''
                   (Inl (Error ''HTTP 500'')) adding_app)) \<and>
   lunch \<notin> set (getExpenses (submitExpense (Fin (25 / 2)) [] ''X'' ''2026-01-05''
                   (Inl (Error ''HTTP 500'')) adding_app))"
  by (simp add: submitExpense_def submitExpense_begin_def submitExpense_end_def appendExpense_def
      insertExpense_def showToast_def getExpenses_def adding_app_def new_app_def no_local_def
      lunch_def Let_def)

section \<open>Removing an expense (C4)\<close>

lemma deleteExpense_begin_expenses:
  "expenses (deleteExpense_begin i a) = filter (\<lambda>e. ident e \<noteq> Str i) (expenses a)"
  by (simp add: deleteExpense_begin_def saveExpenses_def Let_def)

lemma deleteExpense_begin_stored:
  "getExpenses (deleteExpense_begin i a) =
     map expenseViaJSON (filter (\<lambda>e. ident e \<noteq> Str i) (expenses a))"
  by (simp add: deleteExpense_begin_def saveExpenses_def getExpenses_def Let_def)

lemma stored_without_id:
  "\<forall>e \<in> set (map expenseViaJSON (filter (\<lambda>e. ident e \<noteq> Str i) es)). ident e \<noteq> Str i"
  by (auto simp: expenseViaJSON_ident)

text \<open>
  The service writes the numeric sheet id and nothing else: the stores it leaves are the ones
  it found, or those with that id saved.
\<close>

lemma removeExpenseRow_store:
  "fst (snd (removeExpenseRow colA meta deleted sid sheet x b)) = b \<or>
   (\<exists>n. fst (snd (removeExpenseRow colA meta deleted sid sheet x b)) = saveNumericSheetId n b)"
  by (auto simp: removeExpenseRow_def Let_def split: sum.splits option.splits)

lemma sheetsDeleteExpense_frame:
  fixes a :: app
  shows "expenses (fst (snd (sheetsDeleteExpense r sid x a))) = expenses a \<and>
         toasts (fst (snd (sheetsDeleteExpense r sid x a))) = toasts a \<and>
         sessionStorage (fst (snd (sheetsDeleteExpense r sid x a))) = sessionStorage a \<and>
         getExpenses (fst (snd (sheetsDeleteExpense r sid x a))) = getExpenses a \<and>
         getSheetId (fst (snd (sheetsDeleteExpense r sid x a))) = getSheetId a \<and>
         getLoginHint (fst (snd (sheetsDeleteExpense r sid x a))) = getLoginHint a"
  using removeExpenseRow_store [of "columnRead r" "metadataRead r" "rowDeleted r" sid SHEET_NAME x a]
  by (auto simp: sheetsDeleteExpense_def saveNumericSheetId_def getExpenses_def getSheetId_def
      getLoginHint_def)

lemma deleteExpense_end_frame:
  "expenses (deleteExpense_end i r a) = expenses a \<and>
   getExpenses (deleteExpense_end i r a) = getExpenses a"
proof -
  obtain res a1 reqs where s: "sheetsDeleteExpense r (idText (spreadsheetId a)) i a = (res, a1, reqs)"
    by (cases "sheetsDeleteExpense r (idText (spreadsheetId a)) i a") auto
  with sheetsDeleteExpense_frame [of r "idText (spreadsheetId a)" i a]
  have "expenses a1 = expenses a" "getExpenses a1 = getExpenses a" by simp_all
  with s show ?thesis
    by (cases res) (simp_all add: deleteExpense_end_def showToast_def getExpenses_def)
qed

lemma removeExpenseRow_result:
  "getNumericSheetId b' = getNumericSheetId b \<Longrightarrow>
   fst (removeExpenseRow colA meta deleted sid sheet x b') =
   fst (removeExpenseRow colA meta deleted sid sheet x b)"
  by (simp add: removeExpenseRow_def Let_def split: sum.splits option.splits)

lemma deleteExpense2_service:
  obtains res a1 reqs where
    "sheetsDeleteExpense r (idText (spreadsheetId (deleteExpense2_begin i a))) i (deleteExpense2_begin i a)
       = (res, a1, reqs)"
    and "res = fst (sheetsDeleteExpense r (idText (spreadsheetId a)) i a)"
    and "expenses a1 = expenses a" and "getExpenses a1 = getExpenses a"
proof -
  let ?a = "deleteExpense2_begin i a"
  obtain res a1 reqs where s: "sheetsDeleteExpense r (idText (spreadsheetId ?a)) i ?a = (res, a1, reqs)"
    by (cases "sheetsDeleteExpense r (idText (spreadsheetId ?a)) i ?a") auto
  have sid: "spreadsheetId ?a = spreadsheetId a" and num: "getNumericSheetId ?a = getNumericSheetId a"
    and ex: "expenses ?a = expenses a" and st: "getExpenses ?a = getExpenses a"
    by (simp_all add: deleteExpense2_begin_def getNumericSheetId_def getExpenses_def)
  have "fst (sheetsDeleteExpense r (idText (spreadsheetId ?a)) i ?a) =
        fst (sheetsDeleteExpense r (idText (spreadsheetId a)) i a)"
    unfolding sheetsDeleteExpense_def sid using num by (rule removeExpenseRow_result)
  with s have r: "res = fst (sheetsDeleteExpense r (idText (spreadsheetId a)) i a)" by simp
  from sheetsDeleteExpense_frame [of r "idText (spreadsheetId ?a)" i ?a] s ex st
  have "expenses a1 = expenses a" "getExpenses a1 = getExpenses a" by simp_all
  with s r show ?thesis by (rule that)
qed

lemma deleteExpense2_failure:
  assumes "fst (sheetsDeleteExpense r (idText (spreadsheetId a)) i a) = Inl err"
  shows "expenses (deleteExpense2 i r a) = expenses a \<and>
         getExpenses (deleteExpense2 i r a) = getExpenses a"
proof -
  obtain res a1 reqs where s:
    "sheetsDeleteExpense r (idText (spreadsheetId (deleteExpense2_begin i a))) i (deleteExpense2_begin i a)
       = (res, a1, reqs)"
    and r: "res = fst (sheetsDeleteExpense r (idText (spreadsheetId a)) i a)"
    and fr: "expenses a1 = expenses a" "getExpenses a1 = getExpenses a"
    by (rule deleteExpense2_service)
  from r assms have "res = Inl err" by simp
  with s fr show ?thesis
    by (simp add: deleteExpense2_def deleteExpense2_end_def showToast_def getExpenses_def)
qed

lemma deleteExpense2_success:
  assumes "fst (sheetsDeleteExpense r (idText (spreadsheetId a)) i a) = Inr ()"
  shows "expenses (deleteExpense2 i r a) = filter (\<lambda>e. ident e \<noteq> Str i) (expenses a) \<and>
         getExpenses (deleteExpense2 i r a) =
           map expenseViaJSON (filter (\<lambda>e. ident e \<noteq> Str i) (expenses a))"
proof -
  obtain res a1 reqs where s:
    "sheetsDeleteExpense r (idText (spreadsheetId (deleteExpense2_begin i a))) i (deleteExpense2_begin i a)
       = (res, a1, reqs)"
    and r: "res = fst (sheetsDeleteExpense r (idText (spreadsheetId a)) i a)"
    and fr: "expenses a1 = expenses a" "getExpenses a1 = getExpenses a"
    by (rule deleteExpense2_service)
  from r assms have "res = Inr ()" by simp
  with s fr show ?thesis
    by (simp add: deleteExpense2_def deleteExpense2_end_def showToast_def getExpenses_def
        saveExpenses_def Let_def)
qed

lemma failing_delete_result:
  assumes "getNumericSheetId b = None"
  shows "sheetsDeleteExpense failing_delete sid ''X'' b =
           (Inl (Error ''HTTP 500''), saveNumericSheetId 7 b,
            [GetValues sid (rangeA1 SHEET_NAME ''A2:A1000''), GetSpreadsheet sid ''sheets.properties'',
             BatchUpdate sid [buildDeleteRowRequest 7 2]])"
proof -
  have "findRowIndex [[Str ''Y''], [Str ''X'']] ''X'' = 2"
    by (simp add: findRowIndex_def cell_def)
  with assms show ?thesis
    by (simp add: sheetsDeleteExpense_def removeExpenseRow_def failing_delete_def
        extractNumericSheetId_def Let_def)
qed

lemma deleteExpense_begin_numeric:
  "getNumericSheetId (deleteExpense_begin i a) = getNumericSheetId a"
  by (simp add: deleteExpense_begin_def saveExpenses_def getNumericSheetId_def Let_def)

text \<open>
  C4, as the code has it. In controllers/expenseController.js, \<open>deleteExpense\<close> takes every
  record with the id out of the cache in \<open>STATE\<close>, keeping the others in their order, and
  stores that cache before it calls the service, so no record with the id is in either cache
  while the call is pending, whatever was added before; whatever the service answers and
  whatever it writes to the stores itself (the numeric sheet id), the cache in \<open>STATE\<close> and
  the stored cache stay as they were then. In the other copy of the controller the service
  is called first: while the call is pending and when it fails both caches are unchanged,
  and the records with the id are taken out and the cache stored only when it succeeds.
\<close>

theorem deleteExpense_local_removal:
  "expenses (deleteExpense_begin i a) = filter (\<lambda>e. ident e \<noteq> Str i) (expenses a) \<and>
   getExpenses (deleteExpense_begin i a) =
     map expenseViaJSON (filter (\<lambda>e. ident e \<noteq> Str i) (expenses a)) \<and>
   (\<forall>e \<in> set (expenses (deleteExpense_begin i a)). ident e \<noteq> Str i) \<and>
   (\<forall>e \<in> set (getExpenses (deleteExpense_begin i a)). ident e \<noteq> Str i) \<and>
   serviceCalls (deleteExpense_begin i a) =
     serviceCalls a @ [DeleteExpense (stateAccessToken a) (spreadsheetId a) i] \<and>
   expenses (deleteExpense i r a) = expenses (deleteExpense_begin i a) \<and>
   getExpenses (deleteExpense i r a) = getExpenses (deleteExpense_begin i a) \<and>
   expenses (deleteExpense2_begin i a) = expenses a \<and>
   localStorage (deleteExpense2_begin i a) = localStorage a \<and>
   (fst (sheetsDeleteExpense r (idText (spreadsheetId a)) i a) = Inl err \<longrightarrow>
      expenses (deleteExpense2 i r a) = expenses a \<and>
      getExpenses (deleteExpense2 i r a) = getExpenses a) \<and>
   (fst (sheetsDeleteExpense r (idText (spreadsheetId a)) i a) = Inr () \<longrightarrow>
      expenses (deleteExpense2 i r a) = filter (\<lambda>e. ident e \<noteq> Str i) (expenses a) \<and>
      getExpenses (deleteExpense2 i r a) =
        map expenseViaJSON (filter (\<lambda>e. ident e \<noteq> Str i) (expenses a)))"
proof -
  have c1: "expenses (deleteExpense_begin i a) = filter (\<lambda>e. ident e \<noteq> Str i) (expenses a)"
    by (rule deleteExpense_begin_expenses)
  have c2: "getExpenses (deleteExpense_begin i a) =
     map expenseViaJSON (filter (\<lambda>e. ident e \<noteq> Str i) (expenses a))"
    by (rule deleteExpense_begin_stored)
  have c3: "\<forall>e \<in> set (expenses (deleteExpense_begin i a)). ident e \<noteq> Str i"
    by (simp add: c1)
  have c4: "\<forall>e \<in> set (getExpenses (deleteExpense_begin i a)). ident e \<noteq> Str i"
    unfolding c2 by (rule stored_without_id)
  have c5: "serviceCalls (deleteExpense_begin i a) =
     serviceCalls a @ [DeleteExpense (stateAccessToken a) (spreadsheetId a) i]"
    by (simp add: deleteExpense_begin_def saveExpenses_def Let_def)
  have c6: "expenses (deleteExpense i r a) = expenses (deleteExpense_begin i a)"
    and c7: "getExpenses (deleteExpense i r a) = getExpenses (deleteExpense_begin i a)"
    using deleteExpense_end_frame [of i r "deleteExpense_begin i a"]
    by (simp_all add: deleteExpense_def)
  have c8: "expenses (deleteExpense2_begin i a) = expenses a"
    and c9: "localStorage (deleteExpense2_begin i a) = localStorage a"
    by (simp_all add: deleteExpense2_begin_def)
  have c10: "fst (sheetsDeleteExpense r (idText (spreadsheetId a)) i a) = Inl err \<longrightarrow>
      expenses (deleteExpense2 i r a) = expenses a \<and>
      getExpenses (deleteExpense2 i r a) = getExpenses a"
    using deleteExpense2_failure by blast
  have c11: "fst (sheetsDeleteExpense r (idText (spreadsheetId a)) i a) = Inr () \<longrightarrow>
      expenses (deleteExpense2 i r a) = filter (\<lambda>e. ident e \<noteq> Str i) (expenses a) \<and>
      getExpenses (deleteExpense2 i r a) =
        map expenseViaJSON (filter (\<lambda>e. ident e \<noteq> Str i) (expenses a))"
    using deleteExpense2_success by blast
  show ?thesis
    by (intro conjI) (fact c1 c2 c3 c4 c5 c6 c7 c8 c9 c10 c11)+
qed

text \<open>
  An expense added to a cache that holds another, and then removed by the first copy of the
  controller, with no numeric sheet id cached and the batch update failing: the expense is in
  the cache after the add; once the removal has called the service it is in neither cache
  and the other expense is in both, and so it stays after the service has failed, although
  the service has by then written the numeric sheet id to the store.
\<close>

theorem deleteExpense_after_add:
  "expenses (submitExpense (Fin (25 / 2)) [] ''X'' ''2026-01-05'' (Inr ()) listed_app) = [dinner, lunch] \<and>
   expenses (deleteExpense_begin ''X''
     (submitExpense (Fin (25 / 2)) [] ''X'' ''2026-01-05'' (Inr ()) listed_app)) = [dinner] \<and>
   getExpenses (deleteExpense_begin ''X''
     (submitExpense (Fin (25 / 2)) [] ''X'' ''2026-01-05'' (Inr ()) listed_app)) = [dinner] \<and>
   expenses (deleteExpense ''X'' failing_delete
     (submitExpense (Fin (25 / 2)) [] ''X'' ''2026-01-05'' (Inr ()) listed_app)) = [dinner] \<and>
   getExpenses (deleteExpense ''X'' failing_delete
     (submitExpense (Fin (25 / 2)) [] ''X'' ''2026-01-05'' (Inr ()) listed_app)) = [dinner] \<and>
   getNumericSheetId (submitExpense (Fin (25 / 2)) [] ''X'' ''2026-01-05'' (Inr ()) listed_app) = None \<and>
   getNumericSheetId (deleteExpense ''X'' failing_delete
     (submitExpense (Fin (25 / 2)) [] ''X'' ''2026-01-05'' (Inr ()) listed_app)) = Some 7"
proof -
  let ?a = "submitExpense (Fin (25 / 2)) [] ''X'' ''2026-01-05'' (Inr ()) listed_app"
  have added: "expenses ?a = [dinner, lunch]"
    by (simp add: submitExpense_def submitExpense_begin_def submitExpense_end_def appendExpense_def
        insertExpense_def showToast_def saveExpenses_def listed_app_def adding_app_def new_app_def
        lunch_def Let_def)
  have ids: "ident lunch = Str ''X''" "ident dinner = Str ''Y''"
    "expenseViaJSON dinner = dinner"
    by (simp_all add: lunch_def dinner_def expenseViaJSON_def)
  have num: "getNumericSheetId ?a = None"
    by (simp add: submitExpense_def submitExpense_begin_def submitExpense_end_def appendExpense_def
        insertExpense_def showToast_def saveExpenses_def listed_app_def adding_app_def new_app_def
        no_local_def getNumericSheetId_def Let_def)
  have saved: "getNumericSheetId (deleteExpense ''X'' failing_delete ?a) = Some 7"
  proof -
    have "getNumericSheetId (deleteExpense_begin ''X'' ?a) = None"
      using num by (simp add: deleteExpense_begin_numeric)
    then have "sheetsDeleteExpense failing_delete
          (idText (spreadsheetId (deleteExpense_begin ''X'' ?a))) ''X'' (deleteExpense_begin ''X'' ?a) =
        (Inl (Error ''HTTP 500''), saveNumericSheetId 7 (deleteExpense_begin ''X'' ?a),
         [GetValues (idText (spreadsheetId (deleteExpense_begin ''X'' ?a))) (rangeA1 SHEET_NAME ''A2:A1000''),
          GetSpreadsheet (idText (spreadsheetId (deleteExpense_begin ''X'' ?a))) ''sheets.properties'',
          BatchUpdate (idText (spreadsheetId (deleteExpense_begin ''X'' ?a))) [buildDeleteRowRequest 7 2]])"
      by (rule failing_delete_result)
    then show ?thesis
      by (simp add: deleteExpense_def deleteExpense_end_def showToast_def saveNumericSheetId_def
          getNumericSheetId_def)
  qed
  note inst = deleteExpense_local_removal [of "''X''" ?a failing_delete]
  have k: "filter (\<lambda>e. ident e \<noteq> Str ''X'') [dinner, lunch] = [dinner]"
    by (simp add: ids)
  from inst have e1: "expenses (deleteExpense_begin ''X'' ?a) = [dinner]"
    by (simp only: added k)
  from inst have e2: "getExpenses (deleteExpense_begin ''X'' ?a) = [dinner]"
    by (simp only: added k list.map ids)
  from inst have e3: "expenses (deleteExpense ''X'' failing_delete ?a) = [dinner]"
    by (simp only: added k)
  from inst have e4: "getExpenses (deleteExpense ''X'' failing_delete ?a) = [dinner]"
    by (simp only: added k list.map ids)
  show ?thesis
    by (intro conjI) (fact added e1 e2 e3 e4 num saved)+
qed

text \<open>
  The other copy of the controller, on a cache holding the expense with id \<open>X\<close>: the expense is
  still in both caches while the removal is pending, and after the service has failed.
\<close>

theorem deleteExpense2_keeps_record:
  "ident lunch = Str ''X'' \<and>
   lunch \<in> set (expenses (deleteExpense2_begin ''X'' both_app)) \<and>
   lunch \<in> set (getExpenses (deleteExpense2_begin ''X'' both_app)) \<and>
   fst (sheetsDeleteExpense failing_delete (idText (spreadsheetId both_app)) ''X'' both_app)
     = Inl (Error ''HTTP 500'') \<and>
   lunch \<in> set (expenses (deleteExpense2 ''X'' failing_delete both_app)) \<and>
   lunch \<in> set (getExpenses (deleteExpense2 ''X'' failing_delete both_app))"
proof -
  have cache: "expenses both_app = [dinner, lunch]" "getExpenses both_app = [dinner, lunch]"
    "getNumericSheetId both_app = None"
    by (simp_all add: both_app_def adding_app_def new_app_def no_local_def getExpenses_def
        getNumericSheetId_def)
  have pending: "expenses (deleteExpense2_begin ''X'' both_app) = [dinner, lunch]"
    "getExpenses (deleteExpense2_begin ''X'' both_app) = [dinner, lunch]"
    using cache by (simp_all add: deleteExpense2_begin_def getExpenses_def)
  have failed: "fst (sheetsDeleteExpense failing_delete (idText (spreadsheetId both_app)) ''X'' both_app)
     = Inl (Error ''HTTP 500'')"
    using failing_delete_result [OF cache(3)] by simp
  from deleteExpense2_failure [OF failed] cache pending failed show ?thesis
    by (simp add: lunch_def)
qed

section \<open>Deleting a row that is not there (C6)\<close>

lemma removeExpenseRow_absent:
  assumes "findRowIndex (case vals of None \<Rightarrow> [] | Some rows \<Rightarrow> rows) x = - 1"
    and "getNumericSheetId b \<noteq> None \<or> meta = Inr m"
  shows "removeExpenseRow (Inr vals) meta deleted sid sheet x b =
           (Inr (), b,
            GetValues sid (rangeA1 sheet ''A2:A1000'') #
              (if getNumericSheetId b \<noteq> None then [] else [GetSpreadsheet sid ''sheets.properties'']))"
  using assms by (auto simp: removeExpenseRow_def Let_def)

lemma removeExpenseRow_caches:
  assumes "deletions (snd (snd (removeExpenseRow colA meta deleted sid sheet x b))) \<noteq> 0"
  shows "getNumericSheetId (fst (snd (removeExpenseRow colA meta deleted sid sheet x b))) \<noteq> None"
  using assms
  by (auto simp: removeExpenseRow_def deletions_def Let_def saveNumericSheetId_def
      getNumericSheetId_def split: sum.splits if_splits option.splits)

text \<open>
  C6, as the code has it. The column read and, when no numeric sheet id is cached, the
  metadata read are awaited together, so a failure of either ends the call with that error.
  When the column was read and holds no row whose first cell is the id, and the numeric sheet
  id is cached or the metadata read succeeded, \<open>removeExpenseRow\<close> returns normally: the stores
  are unchanged, only the reads were sent, and no row deletion. A call that sent a row
  deletion has cached the numeric sheet id, so a later call for an id that is no longer in
  the column returns normally whatever its metadata read would do: it sends the column read
  alone.
\<close>

theorem removeExpenseRow_absent_id:
  "((\<forall>r \<in> set (case vals of None \<Rightarrow> [] | Some rows \<Rightarrow> rows). cell r 0 \<noteq> Str x) \<and>
    (getNumericSheetId b \<noteq> None \<or> meta = Inr m) \<longrightarrow>
      fst (removeExpenseRow (Inr vals) meta deleted sid sheet x b) = Inr () \<and>
      fst (snd (removeExpenseRow (Inr vals) meta deleted sid sheet x b)) = b \<and>
      deletions (snd (snd (removeExpenseRow (Inr vals) meta deleted sid sheet x b))) = 0 \<and>
      snd (snd (removeExpenseRow (Inr vals) meta deleted sid sheet x b)) =
        GetValues sid (rangeA1 sheet ''A2:A1000'') #
          (if getNumericSheetId b \<noteq> None then [] else [GetSpreadsheet sid ''sheets.properties''])) \<and>
   (deletions (snd (snd (removeExpenseRow colA1 meta1 deleted1 sid sheet x b))) \<noteq> 0 \<and>
    (\<forall>r \<in> set (case vals of None \<Rightarrow> [] | Some rows \<Rightarrow> rows). cell r 0 \<noteq> Str x) \<longrightarrow>
      removeExpenseRow (Inr vals) meta deleted sid sheet x
          (fst (snd (removeExpenseRow colA1 meta1 deleted1 sid sheet x b))) =
        (Inr (), fst (snd (removeExpenseRow colA1 meta1 deleted1 sid sheet x b)),
         [GetValues sid (rangeA1 sheet ''A2:A1000'')]))"
proof (intro conjI impI)
  assume a: "(\<forall>r \<in> set (case vals of None \<Rightarrow> [] | Some rows \<Rightarrow> rows). cell r 0 \<noteq> Str x) \<and>
    (getNumericSheetId b \<noteq> None \<or> meta = Inr m)"
  then have "findRowIndex (case vals of None \<Rightarrow> [] | Some rows \<Rightarrow> rows) x = - 1"
    by (simp add: findRowIndex_absent)
  with a have eq: "removeExpenseRow (Inr vals) meta deleted sid sheet x b =
           (Inr (), b,
            GetValues sid (rangeA1 sheet ''A2:A1000'') #
              (if getNumericSheetId b \<noteq> None then [] else [GetSpreadsheet sid ''sheets.properties'']))"
    by (intro removeExpenseRow_absent) auto
  show "fst (removeExpenseRow (Inr vals) meta deleted sid sheet x b) = Inr ()"
    by (simp add: eq)
  show "fst (snd (removeExpenseRow (Inr vals) meta deleted sid sheet x b)) = b"
    by (simp add: eq)
  show "deletions (snd (snd (removeExpenseRow (Inr vals) meta deleted sid sheet x b))) = 0"
    by (simp add: eq deletions_def)
  show "snd (snd (removeExpenseRow (Inr vals) meta deleted sid sheet x b)) =
        GetValues sid (rangeA1 sheet ''A2:A1000'') #
          (if getNumericSheetId b \<noteq> None then [] else [GetSpreadsheet sid ''sheets.properties''])"
    by (simp add: eq)
next
  let ?b1 = "fst (snd (removeExpenseRow colA1 meta1 deleted1 sid sheet x b))"
  assume a: "deletions (snd (snd (removeExpenseRow colA1 meta1 deleted1 sid sheet x b))) \<noteq> 0 \<and>
    (\<forall>r \<in> set (case vals of None \<Rightarrow> [] | Some rows \<Rightarrow> rows). cell r 0 \<noteq> Str x)"
  then have cached: "getNumericSheetId ?b1 \<noteq> None"
    by (intro removeExpenseRow_caches) simp
  from a have "findRowIndex (case vals of None \<Rightarrow> [] | Some rows \<Rightarrow> rows) x = - 1"
    by (simp add: findRowIndex_absent)
  with cached show "removeExpenseRow (Inr vals) meta deleted sid sheet x ?b1 =
      (Inr (), ?b1, [GetValues sid (rangeA1 sheet ''A2:A1000'')])"
    using removeExpenseRow_absent [of vals x "?b1" meta "[]" deleted sid sheet] by auto
qed

text \<open>
  Two deletions of \<open>X\<close> in a row: the first finds it in the second data row, fetches the numeric
  sheet id 7 and deletes sheet rows 2 to 3; the second reads a column without \<open>X\<close> and returns
  normally, although its metadata read would fail.
\<close>

theorem removeExpenseRow_twice:
  "removeExpenseRow (Inr (Some [[Str ''A''], [Str ''X''], [Str ''C'']])) (Inr [7]) (Inr ())
      ''S1'' SHEET_NAME ''X'' empty_browser =
     (Inr (), saveNumericSheetId 7 empty_browser,
      [GetValues ''S1'' ''spends!A2:A1000'', GetSpreadsheet ''S1'' ''sheets.properties'',
       BatchUpdate ''S1'' [\<lparr> sheetId = 7, dimension = ''ROWS'', startIndex = 2, endIndex = 3 \<rparr>]]) \<and>
   removeExpenseRow (Inr (Some [[Str ''A''], [Str ''C'']])) (Inl (Error ''HTTP 500'')) (Inr ())
      ''S1'' SHEET_NAME ''X'' (saveNumericSheetId 7 empty_browser) =
     (Inr (), saveNumericSheetId 7 empty_browser, [GetValues ''S1'' ''spends!A2:A1000''])"
proof -
  let ?first = "removeExpenseRow (Inr (Some [[Str ''A''], [Str ''X''], [Str ''C'']])) (Inr [7]) (Inr ())
      ''S1'' SHEET_NAME ''X'' empty_browser"
  have first: "?first = (Inr (), saveNumericSheetId 7 empty_browser,
      [GetValues ''S1'' ''spends!A2:A1000'', GetSpreadsheet ''S1'' ''sheets.properties'',
       BatchUpdate ''S1'' [\<lparr> sheetId = 7, dimension = ''ROWS'', startIndex = 2, endIndex = 3 \<rparr>]])"
    by (simp add: removeExpenseRow_def getNumericSheetId_def empty_browser_def no_local_def
        findRowIndex_def cell_def extractNumericSheetId_def buildDeleteRowRequest_def
        rangeA1_def SHEET_NAME_def Let_def)
  have sent: "deletions (snd (snd ?first)) \<noteq> 0"
    by (simp add: first deletions_def)
  have gone: "\<forall>r \<in> set (case Some [[Str ''A''], [Str ''C'']] of None \<Rightarrow> [] | Some rows \<Rightarrow> rows).
      cell r 0 \<noteq> Str ''X''"
    by (simp add: cell_def)
  from removeExpenseRow_absent_id [of "Some [[Str ''A''], [Str ''C'']]" "''X''" empty_browser
      "Inl (Error ''HTTP 500'')" "[]" "Inr ()" "''S1''" SHEET_NAME
      "Inr (Some [[Str ''A''], [Str ''X''], [Str ''C'']])" "Inr [7]" "Inr ()"] sent gone
  have "removeExpenseRow (Inr (Some [[Str ''A''], [Str ''C'']])) (Inl (Error ''HTTP 500'')) (Inr ())
      ''S1'' SHEET_NAME ''X'' (fst (snd ?first)) =
     (Inr (), fst (snd ?first), [GetValues ''S1'' (rangeA1 SHEET_NAME ''A2:A1000'')])"
    by blast
  then have "removeExpenseRow (Inr (Some [[Str ''A''], [Str ''C'']])) (Inl (Error ''HTTP 500'')) (Inr ())
      ''S1'' SHEET_NAME ''X'' (saveNumericSheetId 7 empty_browser) =
     (Inr (), saveNumericSheetId 7 empty_browser, [GetValues ''S1'' (rangeA1 SHEET_NAME ''A2:A1000'')])"
    unfolding first by simp
  with first show ?thesis
    by (simp add: rangeA1_def SHEET_NAME_def)
qed

text \<open>
  An id that is not in the column, with no numeric sheet id cached and the metadata read
  failing: the call ends with the error of that read.
\<close>

theorem removeExpenseRow_metadata_failure:
  "findRowIndex [[Str ''A'']] ''X'' = - 1 \<and>
   fst (removeExpenseRow (Inr (Some [[Str ''A'']])) (Inl (Error ''HTTP 500'')) (Inr ())
          ''S1'' SHEET_NAME ''X'' empty_browser) = Inl (Error ''HTTP 500'') \<and>
   fst (removeExpenseRow (Inr (Some [[Str ''A'']])) (Inl (Error ''HTTP 500'')) (Inr ())
          ''S1'' SHEET_NAME ''X'' empty_browser) \<noteq> Inr ()"
  by (simp add: removeExpenseRow_def getNumericSheetId_def empty_browser_def no_local_def
      findRowIndex_def cell_def Let_def)

section \<open>Resolving the spreadsheet (C9)\<close>

lemma creations_simps:
  "creations [] = 0"
  "creations (GetSpreadsheet i f # qs) = creations qs"
  "creations (SearchFiles t # qs) = creations qs"
  "creations (PutValues i g v # qs) = creations qs"
  "creations (CreateSpreadsheet t ss # qs) = Suc (creations qs)"
  "creations (qs @ qs') = creations qs + creations qs'"
  by (simp_all add: creations_def)

lemma searchOrCreate_found:
  assumes "searched r = Inr (Some f)" and "f \<noteq> []"
  shows "searchOrCreate r sent b =
           (Inr (f, False), saveSheetId f b, sent @ [SearchFiles SPREADSHEET_TITLE])"
  using assms by (simp add: searchOrCreate_def findExistingSpreadsheet_def present_def)

lemma searchOrCreate_created:
  assumes "fst (findExistingSpreadsheet (searched r) SPREADSHEET_TITLE) = None"
    and "created r = Inr n" and "headerWritten r = Inr ()"
  shows "searchOrCreate r sent b =
           (Inr (n, True), saveSheetId n b,
            sent @ [SearchFiles SPREADSHEET_TITLE, CreateSpreadsheet SPREADSHEET_TITLE [SHEET_NAME],
                    PutValues n (rangeA1 SHEET_NAME ''A1:E1'') headerRow])"
  using assms
  by (simp add: searchOrCreate_def findExistingSpreadsheet_def createSpreadsheet_def Let_def
      split: sum.splits prod.splits)

lemma searchOrCreate_creations:
  "creations (snd (snd (searchOrCreate r sent b))) =
     creations sent + (if fst (findExistingSpreadsheet (searched r) SPREADSHEET_TITLE) = None then 1 else 0)"
  by (cases "searched r"; cases "created r"; cases "headerWritten r")
     (auto simp: searchOrCreate_def findExistingSpreadsheet_def createSpreadsheet_def Let_def
       creations_simps split: option.splits)

lemma searchOrCreate_new:
  "fst (searchOrCreate r sent b) = Inr (i, True) \<longleftrightarrow>
     fst (findExistingSpreadsheet (searched r) SPREADSHEET_TITLE) = None \<and>
     created r = Inr i \<and> headerWritten r = Inr ()"
  by (cases "searched r"; cases "created r"; cases "headerWritten r")
     (auto simp: searchOrCreate_def findExistingSpreadsheet_def createSpreadsheet_def Let_def
       split: option.splits)

lemma resolveSpreadsheet_verified:
  assumes "getSheetId b = Some sid" and "sid \<noteq> []" and "verified r = Inr ()"
  shows "resolveSpreadsheet r b = (Inr (sid, False), b, [GetSpreadsheet sid ''spreadsheetId''])"
  using assms by (simp add: resolveSpreadsheet_def verifySpreadsheet_def)

lemma resolveSpreadsheet_unverified:
  assumes "getSheetId b = Some sid" and "sid \<noteq> []" and "verified r = Inl e"
  shows "resolveSpreadsheet r b =
           searchOrCreate r [GetSpreadsheet sid ''spreadsheetId'']
             (b\<lparr> localStorage := (localStorage b)\<lparr> SHEET_ID := None \<rparr> \<rparr>)"
  using assms by (simp add: resolveSpreadsheet_def verifySpreadsheet_def)

lemma resolveSpreadsheet_unstored:
  assumes "\<not> present (getSheetId b)"
  shows "resolveSpreadsheet r b = searchOrCreate r [] b"
  using assms by (auto simp: resolveSpreadsheet_def present_def split: option.splits)

lemma resolveSpreadsheet_cases:
  "(\<exists>sid. getSheetId b = Some sid \<and> sid \<noteq> [] \<and> verified r = Inr () \<and>
      resolveSpreadsheet r b = (Inr (sid, False), b, [GetSpreadsheet sid ''spreadsheetId''])) \<or>
   (\<exists>sid e. getSheetId b = Some sid \<and> sid \<noteq> [] \<and> verified r = Inl e \<and>
      resolveSpreadsheet r b = searchOrCreate r [GetSpreadsheet sid ''spreadsheetId'']
             (b\<lparr> localStorage := (localStorage b)\<lparr> SHEET_ID := None \<rparr> \<rparr>)) \<or>
   (\<not> present (getSheetId b) \<and> resolveSpreadsheet r b = searchOrCreate r [] b)"
proof (cases "present (getSheetId b)")
  case False
  then show ?thesis by (simp add: resolveSpreadsheet_unstored)
next
  case True
  then obtain sid where sid: "getSheetId b = Some sid" "sid \<noteq> []"
    by (auto simp: present_def split: option.splits)
  show ?thesis
  proof (cases "verified r")
    case (Inl e)
    with sid show ?thesis using resolveSpreadsheet_unverified by blast
  next
    case (Inr u)
    with sid show ?thesis using resolveSpreadsheet_verified by auto
  qed
qed

lemma resolveSpreadsheet_creations:
  "creations (snd (snd (resolveSpreadsheet r b))) =
     (if (present (getSheetId b) \<and> verified r = Inr ()) \<or>
         fst (findExistingSpreadsheet (searched r) SPREADSHEET_TITLE) \<noteq> None then 0 else 1)"
  using resolveSpreadsheet_cases [of b r]
  by (auto simp: searchOrCreate_creations creations_simps present_def)

lemma resolveSpreadsheet_new:
  "fst (resolveSpreadsheet r b) = Inr (i, True) \<longleftrightarrow>
     \<not> (present (getSheetId b) \<and> verified r = Inr ()) \<and>
     fst (findExistingSpreadsheet (searched r) SPREADSHEET_TITLE) = None \<and>
     created r = Inr i \<and> headerWritten r = Inr ()"
  using resolveSpreadsheet_cases [of b r]
  by (auto simp: searchOrCreate_new present_def)

text \<open>
  C9. A stored id that verifies is returned with \<open>isNew = false\<close>: the verification is the only
  request and the stores are unchanged. When the verification fails the stored id is removed
  and the search by the fixed title follows; a spreadsheet it finds is stored and returned
  with \<open>isNew = false\<close>. A spreadsheet is asked for exactly when no stored id verified and the
  search gave nothing (a failed search counts as nothing), and then once: a run sends at most
  one creation. The result has \<open>isNew = true\<close> exactly when, in that case, the creation and the
  writing of the header both succeeded; then the new id is stored, the creation names the
  fixed title and the single sheet, and the header written to \<open>A1:E1\<close> is the row of the five
  columns ID, Date, Category, Amount, Comment.
\<close>

theorem resolveSpreadsheet_three_tiers:
  "(getSheetId b = Some sid \<and> sid \<noteq> [] \<and> verified r = Inr () \<longrightarrow>
      resolveSpreadsheet r b = (Inr (sid, False), b, [GetSpreadsheet sid ''spreadsheetId''])) \<and>
   (getSheetId b = Some sid \<and> sid \<noteq> [] \<and> verified r = Inl e \<and> searched r = Inr (Some f) \<and> f \<noteq> [] \<longrightarrow>
      resolveSpreadsheet r b =
        (Inr (f, False), saveSheetId f b,
         [GetSpreadsheet sid ''spreadsheetId'', SearchFiles SPREADSHEET_TITLE])) \<and>
   (getSheetId b = Some sid \<and> sid \<noteq> [] \<and> verified r = Inl e \<and>
    fst (resolveSpreadsheet r b) = Inl e' \<longrightarrow>
      getSheetId (fst (snd (resolveSpreadsheet r b))) = None) \<and>
   (\<not> present (getSheetId b) \<and> searched r = Inr (Some f) \<and> f \<noteq> [] \<longrightarrow>
      resolveSpreadsheet r b = (Inr (f, False), saveSheetId f b, [SearchFiles SPREADSHEET_TITLE])) \<and>
   creations (snd (snd (resolveSpreadsheet r b))) \<le> 1 \<and>
   (creations (snd (snd (resolveSpreadsheet r b))) = 1 \<longleftrightarrow>
      \<not> (present (getSheetId b) \<and> verified r = Inr ()) \<and>
      fst (findExistingSpreadsheet (searched r) SPREADSHEET_TITLE) = None) \<and>
   (fst (resolveSpreadsheet r b) = Inr (i, True) \<longleftrightarrow>
      \<not> (present (getSheetId b) \<and> verified r = Inr ()) \<and>
      fst (findExistingSpreadsheet (searched r) SPREADSHEET_TITLE) = None \<and>
      created r = Inr i \<and> headerWritten r = Inr ()) \<and>
   (fst (resolveSpreadsheet r b) = Inr (i, True) \<longrightarrow>
      getSheetId (fst (snd (resolveSpreadsheet r b))) = Some i \<and>
      (\<exists>sent. snd (snd (resolveSpreadsheet r b)) =
         sent @ [SearchFiles SPREADSHEET_TITLE, CreateSpreadsheet SPREADSHEET_TITLE [SHEET_NAME],
                 PutValues i (rangeA1 SHEET_NAME ''A1:E1'')
                   [[Str ''ID'', Str ''Date'', Str ''Category'', Str ''Amount'', Str ''Comment'']]]))"
proof (intro conjI impI)
  assume "getSheetId b = Some sid \<and> sid \<noteq> [] \<and> verified r = Inr ()"
  then show "resolveSpreadsheet r b = (Inr (sid, False), b, [GetSpreadsheet sid ''spreadsheetId''])"
    by (simp add: resolveSpreadsheet_verified)
next
  assume a: "getSheetId b = Some sid \<and> sid \<noteq> [] \<and> verified r = Inl e \<and> searched r = Inr (Some f) \<and> f \<noteq> []"
  then have "resolveSpreadsheet r b = searchOrCreate r [GetSpreadsheet sid ''spreadsheetId'']
             (b\<lparr> localStorage := (localStorage b)\<lparr> SHEET_ID := None \<rparr> \<rparr>)"
    by (intro resolveSpreadsheet_unverified) auto
  with a show "resolveSpreadsheet r b =
        (Inr (f, False), saveSheetId f b,
         [GetSpreadsheet sid ''spreadsheetId'', SearchFiles SPREADSHEET_TITLE])"
    by (simp add: searchOrCreate_found saveSheetId_def)
next
  assume a: "getSheetId b = Some sid \<and> sid \<noteq> [] \<and> verified r = Inl e \<and>
    fst (resolveSpreadsheet r b) = Inl e'"
  then have eq: "resolveSpreadsheet r b = searchOrCreate r [GetSpreadsheet sid ''spreadsheetId'']
             (b\<lparr> localStorage := (localStorage b)\<lparr> SHEET_ID := None \<rparr> \<rparr>)"
    by (intro resolveSpreadsheet_unverified) auto
  from a show "getSheetId (fst (snd (resolveSpreadsheet r b))) = None"
    unfolding eq
    by (cases "searched r"; cases "created r"; cases "headerWritten r")
       (auto simp: searchOrCreate_def findExistingSpreadsheet_def createSpreadsheet_def Let_def
         getSheetId_def split: option.splits if_splits)
next
  assume a: "\<not> present (getSheetId b) \<and> searched r = Inr (Some f) \<and> f \<noteq> []"
  then show "resolveSpreadsheet r b = (Inr (f, False), saveSheetId f b, [SearchFiles SPREADSHEET_TITLE])"
    by (simp add: resolveSpreadsheet_unstored searchOrCreate_found)
next
  show "creations (snd (snd (resolveSpreadsheet r b))) \<le> 1"
    by (simp add: resolveSpreadsheet_creations)
next
  show "creations (snd (snd (resolveSpreadsheet r b))) = 1 \<longleftrightarrow>
      \<not> (present (getSheetId b) \<and> verified r = Inr ()) \<and>
      fst (findExistingSpreadsheet (searched r) SPREADSHEET_TITLE) = None"
    by (simp add: resolveSpreadsheet_creations)
next
  show "fst (resolveSpreadsheet r b) = Inr (i, True) \<longleftrightarrow>
      \<not> (present (getSheetId b) \<and> verified r = Inr ()) \<and>
      fst (findExistingSpreadsheet (searched r) SPREADSHEET_TITLE) = None \<and>
      created r = Inr i \<and> headerWritten r = Inr ()"
    by (rule resolveSpreadsheet_new)
next
  assume new: "fst (resolveSpreadsheet r b) = Inr (i, True)"
  then have c: "fst (findExistingSpreadsheet (searched r) SPREADSHEET_TITLE) = None"
      "created r = Inr i" "headerWritten r = Inr ()"
    by (simp_all add: resolveSpreadsheet_new)
  from new resolveSpreadsheet_cases [of b r]
  obtain sent b0 where eq: "resolveSpreadsheet r b = searchOrCreate r sent b0"
    by auto
  have full: "searchOrCreate r sent b0 =
           (Inr (i, True), saveSheetId i b0,
            sent @ [SearchFiles SPREADSHEET_TITLE, CreateSpreadsheet SPREADSHEET_TITLE [SHEET_NAME],
                    PutValues i (rangeA1 SHEET_NAME ''A1:E1'') headerRow])"
    using c by (rule searchOrCreate_created)
  show "getSheetId (fst (snd (resolveSpreadsheet r b))) = Some i"
    by (simp add: eq full getSheetId_def saveSheetId_def)
  show "\<exists>sent. snd (snd (resolveSpreadsheet r b)) =
         sent @ [SearchFiles SPREADSHEET_TITLE, CreateSpreadsheet SPREADSHEET_TITLE [SHEET_NAME],
                 PutValues i (rangeA1 SHEET_NAME ''A1:E1'')
                   [[Str ''ID'', Str ''Date'', Str ''Category'', Str ''Amount'', Str ''Comment'']]]"
    by (simp add: eq full headerRow_def)
qed

text \<open>
  Three runs: a stored id that verifies; a stored id that no longer does, with a spreadsheet
  of the fixed title found; nothing stored and nothing found, so that the spreadsheet is
  created and its header written.
\<close>

theorem resolveSpreadsheet_runs:
  "resolveSpreadsheet \<lparr> verified = Inr (), searched = Inr None, created = Inr ''N'', headerWritten = Inr () \<rparr>
      (saveSheetId ''S1'' empty_browser) =
     (Inr (''S1'', False), saveSheetId ''S1'' empty_browser, [GetSpreadsheet ''S1'' ''spreadsheetId'']) \<and>
   resolveSpreadsheet \<lparr> verified = Inl (Error ''HTTP 404''), searched = Inr (Some ''S2''),
                        created = Inr ''N'', headerWritten = Inr () \<rparr>
      (saveSheetId ''S1'' empty_browser) =
     (Inr (''S2'', False), saveSheetId ''S2'' empty_browser,
      [GetSpreadsheet ''S1'' ''spreadsheetId'', SearchFiles ''SpenGo'']) \<and>
   fst (resolveSpreadsheet \<lparr> verified = Inr (), searched = Inr None, created = Inr ''N'',
                             headerWritten = Inr () \<rparr> empty_browser) = Inr (''N'', True) \<and>
   creations (snd (snd (resolveSpreadsheet \<lparr> verified = Inr (), searched = Inr None, created = Inr ''N'',
                             headerWritten = Inr () \<rparr> empty_browser))) = 1 \<and>
   getSheetId (fst (snd (resolveSpreadsheet \<lparr> verified = Inr (), searched = Inr None, created = Inr ''N'',
                             headerWritten = Inr () \<rparr> empty_browser))) = Some ''N''"
proof -
  let ?ok = "\<lparr> verified = Inr (), searched = Inr None, created = Inr ''N'', headerWritten = Inr () \<rparr>"
  let ?gone = "\<lparr> verified = Inl (Error ''HTTP 404''), searched = Inr (Some ''S2''),
                 created = Inr ''N'', headerWritten = Inr () \<rparr>"
  let ?b = "saveSheetId ''S1'' empty_browser"
  have stored: "getSheetId ?b = Some ''S1''" "\<not> present (getSheetId empty_browser)"
    by (simp_all add: getSheetId_def saveSheetId_def empty_browser_def no_local_def present_def)
  have one: "resolveSpreadsheet ?ok ?b = (Inr (''S1'', False), ?b, [GetSpreadsheet ''S1'' ''spreadsheetId''])"
    using resolveSpreadsheet_three_tiers [of ?b "''S1''" ?ok] stored by simp
  have two: "resolveSpreadsheet ?gone ?b =
     (Inr (''S2'', False), saveSheetId ''S2'' ?b,
      [GetSpreadsheet ''S1'' ''spreadsheetId'', SearchFiles SPREADSHEET_TITLE])"
    using resolveSpreadsheet_three_tiers [of ?b "''S1''" ?gone "Error ''HTTP 404''" "''S2''"] stored
    by simp
  have three: "fst (resolveSpreadsheet ?ok empty_browser) = Inr (''N'', True) \<and>
      creations (snd (snd (resolveSpreadsheet ?ok empty_browser))) = 1 \<and>
      getSheetId (fst (snd (resolveSpreadsheet ?ok empty_browser))) = Some ''N''"
    using resolveSpreadsheet_three_tiers
      [of empty_browser "''S1''" ?ok "Error ''HTTP 404''" "''S2''" "Error ''HTTP 404''" "''N''"] stored
    by (simp add: findExistingSpreadsheet_def present_def)
  from one two three show ?thesis
    by (simp add: saveSheetId_def SPREADSHEET_TITLE_def)
qed

section \<open>Waiting for a token (C2, C3, C10)\<close>

lemma silentRefresh_fields:
  "tokenWaiters (silentRefresh now s) = tokenWaiters s"
  "settled (silentRefresh now s) = settled s"
  "callbacks (silentRefresh now s) = callbacks s"
  "accessToken (silentRefresh now s) = accessToken s"
  "tokenClient (silentRefresh now s) = tokenClient s"
  "sessionStorage (silentRefresh now s) = sessionStorage s"
  "localStorage (silentRefresh now s) = localStorage s"
  "pendingFlowType (silentRefresh now s) = (if tokenClient s then Some Silent else pendingFlowType s)"
  "requests (silentRefresh now s) =
     (if tokenClient s then requests s @ [\<lparr> prompt = [], login_hint = Some (getLoginHint s) \<rparr>]
      else requests s)"
  by (simp_all add: silentRefresh_def)

lemma getLoginHint_waiters [simp]:
  "getLoginHint (s\<lparr> tokenWaiters := ws \<rparr>) = getLoginHint s"
  by (simp add: getLoginHint_def)

lemma waitForToken_fields:
  assumes "\<not> hasValidToken now s"
  shows "tokenWaiters (waitForToken now w s) = tokenWaiters s @ [w]"
    and "settled (waitForToken now w s) = settled s"
    and "callbacks (waitForToken now w s) = callbacks s"
    and "accessToken (waitForToken now w s) = accessToken s"
    and "tokenClient (waitForToken now w s) = tokenClient s"
    and "sessionStorage (waitForToken now w s) = sessionStorage s"
    and "localStorage (waitForToken now w s) = localStorage s"
    and "pendingFlowType (waitForToken now w s) =
           (if tokenClient s then Some Silent else pendingFlowType s)"
    and "requests (waitForToken now w s) =
           (if tokenClient s \<and> pendingFlowType s \<noteq> Some Silent
            then requests s @ [\<lparr> prompt = [], login_hint = Some (getLoginHint s) \<rparr>]
            else requests s)"
  using assms
  by (auto simp: waitForToken_def hasValidToken_def Let_def silentRefresh_fields)

lemma hasValidToken_cong:
  "accessToken s' = accessToken s \<Longrightarrow> sessionStorage s' = sessionStorage s \<Longrightarrow>
   hasValidToken t s' = hasValidToken t s"
  by (simp add: hasValidToken_def isTokenExpired_def)

lemma getLoginHint_cong:
  "localStorage s' = localStorage s \<Longrightarrow> getLoginHint s' = getLoginHint s"
  by (simp add: getLoginHint_def)

lemma waitForTokens_fields:
  assumes "\<forall>c \<in> set calls. \<not> hasValidToken (fst c) s"
  shows "tokenWaiters (waitForTokens calls s) = tokenWaiters s @ map snd calls \<and>
         settled (waitForTokens calls s) = settled s \<and>
         callbacks (waitForTokens calls s) = callbacks s \<and>
         accessToken (waitForTokens calls s) = accessToken s \<and>
         tokenClient (waitForTokens calls s) = tokenClient s \<and>
         sessionStorage (waitForTokens calls s) = sessionStorage s \<and>
         localStorage (waitForTokens calls s) = localStorage s \<and>
         pendingFlowType (waitForTokens calls s) =
           (if tokenClient s \<and> calls \<noteq> [] then Some Silent else pendingFlowType s) \<and>
         requests (waitForTokens calls s) =
           (if tokenClient s \<and> pendingFlowType s \<noteq> Some Silent \<and> calls \<noteq> []
            then requests s @ [\<lparr> prompt = [], login_hint = Some (getLoginHint s) \<rparr>]
            else requests s)"
  using assms
proof (induction calls arbitrary: s)
  case Nil
  show ?case by simp
next
  case (Cons c calls)
  obtain now w where c: "c = (now, w)" by (cases c)
  let ?s1 = "waitForToken now w s"
  from Cons.prems c have inv: "\<not> hasValidToken now s" by simp
  note f = waitForToken_fields [OF inv, of w]
  have "\<forall>c \<in> set calls. \<not> hasValidToken (fst c) ?s1"
    using Cons.prems hasValidToken_cong [OF f(4) f(6)] by simp
  from Cons.IH [OF this] have ih:
    "tokenWaiters (waitForTokens calls ?s1) = tokenWaiters ?s1 @ map snd calls"
    "settled (waitForTokens calls ?s1) = settled ?s1"
    "callbacks (waitForTokens calls ?s1) = callbacks ?s1"
    "accessToken (waitForTokens calls ?s1) = accessToken ?s1"
    "tokenClient (waitForTokens calls ?s1) = tokenClient ?s1"
    "sessionStorage (waitForTokens calls ?s1) = sessionStorage ?s1"
    "localStorage (waitForTokens calls ?s1) = localStorage ?s1"
    "pendingFlowType (waitForTokens calls ?s1) =
           (if tokenClient ?s1 \<and> calls \<noteq> [] then Some Silent else pendingFlowType ?s1)"
    "requests (waitForTokens calls ?s1) =
           (if tokenClient ?s1 \<and> pendingFlowType ?s1 \<noteq> Some Silent \<and> calls \<noteq> []
            then requests ?s1 @ [\<lparr> prompt = [], login_hint = Some (getLoginHint ?s1) \<rparr>]
            else requests ?s1)"
    by simp_all
  have hint: "getLoginHint ?s1 = getLoginHint s"
    using f(7) by (rule getLoginHint_cong)
  show ?case
    unfolding c waitForTokens.simps ih f hint by simp
qed

lemma clearSilentTimer_fields:
  "tokenWaiters (clearSilentTimer s) = tokenWaiters s"
  "settled (clearSilentTimer s) = settled s"
  "callbacks (clearSilentTimer s) = callbacks s"
  "pendingFlowType (clearSilentTimer s) = pendingFlowType s"
  "accessToken (clearSilentTimer s) = accessToken s"
  "tokenClient (clearSilentTimer s) = tokenClient s"
  by (simp_all add: clearSilentTimer_def split: option.splits)

lemma clearSilentTimer_cancels:
  "silentRefreshTimer s = Some h \<Longrightarrow> map_of (timers (clearSilentTimer s)) h = None"
  by (simp add: clearSilentTimer_def map_of_eq_None_iff image_iff)

lemma handleFailedFlow_fields:
  "tokenWaiters (handleFailedFlow flowType msg s) = []"
  "settled (handleFailedFlow flowType msg s) =
     settled s @ map (\<lambda>w. (w, Rejected msg)) (tokenWaiters s)"
  "callbacks (handleFailedFlow flowType msg s) =
     callbacks s @ [if flowType = Some Silent then OnSilentFail else OnError msg]"
  "accessToken (handleFailedFlow flowType msg s) = accessToken s"
  "tokenClient (handleFailedFlow flowType msg s) = tokenClient s"
  "pendingFlowType (handleFailedFlow flowType msg s) = pendingFlowType s"
  by (simp_all add: handleFailedFlow_def Let_def)

lemma onTokenResponse_success:
  assumes "\<not> present (error r)"
  shows "tokenWaiters (onTokenResponse now r s) = []"
    and "settled (onTokenResponse now r s) =
           settled s @ map (\<lambda>w. (w, Resolved (access_token r))) (tokenWaiters s)"
    and "pendingFlowType (onTokenResponse now r s) = None"
    and "accessToken (onTokenResponse now r s) = Some (access_token r)"
    and "callbacks (onTokenResponse now r s) = callbacks s @ [OnSignIn (access_token r)]"
  using assms by (simp_all add: onTokenResponse_def Let_def clearSilentTimer_fields)

lemma onTokenResponse_error:
  assumes "present (error r)"
  shows "tokenWaiters (onTokenResponse now r s) = []"
    and "settled (onTokenResponse now r s) =
           settled s @ map (\<lambda>w. (w, Rejected (''OAuth error: '' @ the (error r)))) (tokenWaiters s)"
    and "pendingFlowType (onTokenResponse now r s) = None"
  using assms
  by (simp_all add: onTokenResponse_def Let_def clearSilentTimer_fields handleFailedFlow_fields)

lemma onTokenError_failure:
  assumes "\<not> isSilentAuthError err"
  shows "tokenWaiters (onTokenError err s) = []"
    and "settled (onTokenError err s) =
           settled s @ map (\<lambda>w. (w, Rejected (''OAuth error: '' @ formatAuthError err))) (tokenWaiters s)"
    and "pendingFlowType (onTokenError err s) = None"
  using assms
  by (simp_all add: onTokenError_def Let_def clearSilentTimer_fields handleFailedFlow_fields)

lemma timerFires_keeps_waiters:
  "tokenWaiters (timerFires now h s) = tokenWaiters s \<and> settled (timerFires now h s) = settled s"
  by (simp add: timerFires_def Let_def split: option.splits)

lemma response_cancels_timer:
  "silentRefreshTimer s = Some h \<Longrightarrow> timerFires t h (onTokenResponse now r s) = onTokenResponse now r s"
proof -
  assume h: "silentRefreshTimer s = Some h"
  have "timers (onTokenResponse now r s) = timers (clearSilentTimer s)"
    by (simp add: onTokenResponse_def handleFailedFlow_def Let_def)
  with clearSilentTimer_cancels [OF h] show ?thesis
    by (simp add: timerFires_def)
qed

lemma error_cancels_timer:
  "silentRefreshTimer s = Some h \<Longrightarrow> timerFires t h (onTokenError err s) = onTokenError err s"
proof -
  assume h: "silentRefreshTimer s = Some h"
  have "timers (onTokenError err s) = timers (clearSilentTimer s)"
    by (simp add: onTokenError_def handleFailedFlow_def Let_def)
  with clearSilentTimer_cancels [OF h] show ?thesis
    by (simp add: timerFires_def)
qed

lemma silentFlowsStarted_append:
  "requests s' = requests s @ [q] \<Longrightarrow> silentFlowsStarted s' \<le> silentFlowsStarted s + 1"
  by (simp add: silentFlowsStarted_def)

text \<open>
  What the queue does guarantee. Let \<open>waitForToken\<close> be called any number of times, at least
  once, with no valid token at any of the calls. At most one silent refresh is started; when
  the token client exists a silent flow is pending afterwards, started by the first call
  unless one was pending already. Every caller is queued and none is settled yet. When the
  flow ends with a token response, every queued caller is resolved with the token of the
  response, or, if the response carries an error, rejected with that error; when it ends with
  an error callback that is not a benign one (\<open>access_denied\<close>, \<open>popup_closed\<close>), every queued
  caller is rejected with that error.
\<close>

theorem waitForToken_coalesces:
  assumes "calls \<noteq> []" and "\<forall>c \<in> set calls. \<not> hasValidToken (fst c) s"
  shows "silentFlowsStarted (waitForTokens calls s) \<le> silentFlowsStarted s + 1 \<and>
         length (requests (waitForTokens calls s)) \<le> length (requests s) + 1 \<and>
         (tokenClient s \<longrightarrow>
            pendingFlowType (waitForTokens calls s) = Some Silent \<and>
            requests (waitForTokens calls s) =
              (if pendingFlowType s = Some Silent then requests s
               else requests s @ [\<lparr> prompt = [], login_hint = Some (getLoginHint s) \<rparr>])) \<and>
         tokenWaiters (waitForTokens calls s) = tokenWaiters s @ map snd calls \<and>
         settled (waitForTokens calls s) = settled s \<and>
         (\<not> present (error r) \<longrightarrow>
            tokenWaiters (onTokenResponse t r (waitForTokens calls s)) = [] \<and>
            settled (onTokenResponse t r (waitForTokens calls s)) =
              settled s @ map (\<lambda>w. (w, Resolved (access_token r))) (tokenWaiters s @ map snd calls)) \<and>
         (present (error r) \<longrightarrow>
            tokenWaiters (onTokenResponse t r (waitForTokens calls s)) = [] \<and>
            settled (onTokenResponse t r (waitForTokens calls s)) =
              settled s @ map (\<lambda>w. (w, Rejected (''OAuth error: '' @ the (error r))))
                              (tokenWaiters s @ map snd calls)) \<and>
         (\<not> isSilentAuthError err \<longrightarrow>
            tokenWaiters (onTokenError err (waitForTokens calls s)) = [] \<and>
            settled (onTokenError err (waitForTokens calls s)) =
              settled s @ map (\<lambda>w. (w, Rejected (''OAuth error: '' @ formatAuthError err)))
                              (tokenWaiters s @ map snd calls))"
proof -
  let ?s' = "waitForTokens calls s"
  note f = waitForTokens_fields [OF assms(2)]
  have w: "tokenWaiters ?s' = tokenWaiters s @ map snd calls" and st: "settled ?s' = settled s"
    using f by simp_all
  have rq: "requests ?s' = requests s \<or>
            requests ?s' = requests s @ [\<lparr> prompt = [], login_hint = Some (getLoginHint s) \<rparr>]"
    using f by auto
  have started: "silentFlowsStarted ?s' \<le> silentFlowsStarted s + 1"
    using rq silentFlowsStarted_append [of ?s' s] by (auto simp: silentFlowsStarted_def)
  have len: "length (requests ?s') \<le> length (requests s) + 1"
    using rq by auto
  have ready: "tokenClient s \<longrightarrow>
            pendingFlowType ?s' = Some Silent \<and>
            requests ?s' =
              (if pendingFlowType s = Some Silent then requests s
               else requests s @ [\<lparr> prompt = [], login_hint = Some (getLoginHint s) \<rparr>])"
    using f assms(1) by simp
  have ok: "\<not> present (error r) \<longrightarrow>
            tokenWaiters (onTokenResponse t r ?s') = [] \<and>
            settled (onTokenResponse t r ?s') =
              settled s @ map (\<lambda>w. (w, Resolved (access_token r))) (tokenWaiters s @ map snd calls)"
    by (simp add: onTokenResponse_success w st)
  have bad: "present (error r) \<longrightarrow>
            tokenWaiters (onTokenResponse t r ?s') = [] \<and>
            settled (onTokenResponse t r ?s') =
              settled s @ map (\<lambda>w. (w, Rejected (''OAuth error: '' @ the (error r))))
                              (tokenWaiters s @ map snd calls)"
    by (simp add: onTokenResponse_error w st)
  have failed: "\<not> isSilentAuthError err \<longrightarrow>
            tokenWaiters (onTokenError err ?s') = [] \<and>
            settled (onTokenError err ?s') =
              settled s @ map (\<lambda>w. (w, Rejected (''OAuth error: '' @ formatAuthError err)))
                              (tokenWaiters s @ map snd calls)"
    by (simp add: onTokenError_failure w st)
  from started len ready w st ok bad failed show ?thesis by blast
qed

text \<open>
  Three callers with no token stored: one request goes to the token client, and the response
  resolves all three with its token.
\<close>

theorem waitForToken_three_callers:
  "requests (waitForTokens [(0, 1), (0, 2), (5, 3)] ready_service) =
     [\<lparr> prompt = [], login_hint = Some [] \<rparr>] \<and>
   tokenWaiters (waitForTokens [(0, 1), (0, 2), (5, 3)] ready_service) = [1, 2, 3] \<and>
   settled (onTokenResponse 100 \<lparr> error = None, access_token = ''T2'', expires_in = 3599 \<rparr>
              (waitForTokens [(0, 1), (0, 2), (5, 3)] ready_service)) =
     [(1, Resolved ''T2''), (2, Resolved ''T2''), (3, Resolved ''T2'')] \<and>
   tokenWaiters (onTokenResponse 100 \<lparr> error = None, access_token = ''T2'', expires_in = 3599 \<rparr>
              (waitForTokens [(0, 1), (0, 2), (5, 3)] ready_service)) = []"
proof -
  have fresh: "tokenClient ready_service" "pendingFlowType ready_service = None"
    "requests ready_service = []" "tokenWaiters ready_service = []" "settled ready_service = []"
    "getLoginHint ready_service = []"
    by (simp_all add: ready_service_def init_def initTokenClient_def module_loaded_def getLoginHint_def
        no_local_def)
  have none: "\<forall>c \<in> set [(0, 1), (0, 2), (5, 3)]. \<not> hasValidToken (fst c) ready_service"
    by (simp add: hasValidToken_def present_def ready_service_def init_def initTokenClient_def
        module_loaded_def)
  have "[(0::int, 1::nat), (0, 2), (5, 3)] \<noteq> []" by simp
  from waitForToken_coalesces [OF this none,
      of "\<lparr> error = None, access_token = ''T2'', expires_in = 3599 \<rparr>" 100] fresh
  show ?thesis by (simp add: present_def)
qed

text \<open>
  C2, on the code. Three callers wait with no token stored: one silent refresh is started and
  all three are queued. The flow can end in two ways that settle nobody. When neither callback
  comes and the fallback timer fires, the flow is over and the three callers are still queued,
  neither resolved nor rejected. When the error callback brings a benign error
  (\<open>access_denied\<close>), the flow is over, its timer cleared, and the three callers are still
  queued as well.
\<close>

theorem waiters_left_unsettled:
  "silentFlowsStarted (waitForTokens [(0, 1), (0, 2), (5, 3)] ready_service) = 1 \<and>
   pendingFlowType (waitForTokens [(0, 1), (0, 2), (5, 3)] ready_service) = Some Silent \<and>
   tokenWaiters (waitForTokens [(0, 1), (0, 2), (5, 3)] ready_service) = [1, 2, 3] \<and>
   pendingFlowType (timerFires 5000 0 (waitForTokens [(0, 1), (0, 2), (5, 3)] ready_service)) = None \<and>
   callbacks (timerFires 5000 0 (waitForTokens [(0, 1), (0, 2), (5, 3)] ready_service)) = [OnReady, OnSilentFail] \<and>
   tokenWaiters (timerFires 5000 0 (waitForTokens [(0, 1), (0, 2), (5, 3)] ready_service)) = [1, 2, 3] \<and>
   settled (timerFires 5000 0 (waitForTokens [(0, 1), (0, 2), (5, 3)] ready_service)) = [] \<and>
   pendingFlowType (onTokenError \<lparr> err_error = Some ''access_denied'', err_type = None, err_message = None \<rparr>
                      (waitForTokens [(0, 1), (0, 2), (5, 3)] ready_service)) = None \<and>
   timers (onTokenError \<lparr> err_error = Some ''access_denied'', err_type = None, err_message = None \<rparr>
             (waitForTokens [(0, 1), (0, 2), (5, 3)] ready_service)) = [] \<and>
   callbacks (onTokenError \<lparr> err_error = Some ''access_denied'', err_type = None, err_message = None \<rparr>
             (waitForTokens [(0, 1), (0, 2), (5, 3)] ready_service)) = [OnReady] \<and>
   tokenWaiters (onTokenError \<lparr> err_error = Some ''access_denied'', err_type = None, err_message = None \<rparr>
                   (waitForTokens [(0, 1), (0, 2), (5, 3)] ready_service)) = [1, 2, 3] \<and>
   settled (onTokenError \<lparr> err_error = Some ''access_denied'', err_type = None, err_message = None \<rparr>
              (waitForTokens [(0, 1), (0, 2), (5, 3)] ready_service)) = []"
  by (simp add: silentFlowsStarted_def hasValidToken_def present_def ready_service_def
      init_def initTokenClient_def module_loaded_def waitForToken_def silentRefresh_def timerFires_def
      onTokenError_def clearSilentTimer_def isSilentAuthError_def isTokenExpired_def
      no_session_def no_local_def getLoginHint_def SILENT_REFRESH_TIMEOUT_MS_def Let_def)

text \<open>
  C3, on the code. A caller waits on a silent refresh started at time 0, and neither callback
  comes. The timer is not due before 5000; when it fires the pending flow is cleared and
  \<open>onSilentFail\<close> is fired, but the caller is left in the queue, neither resolved nor rejected,
  whereas an explicit silent failure (a response carrying an error, which goes through
  \<open>_handleFailedFlow\<close>) fires the same signal and rejects it. A callback that comes first
  does clear the timer.
\<close>

theorem silent_timeout_leaves_waiter:
  "timers (waitForToken 0 1 ready_service) = [(0, 5000)] \<and>
   timerFires 4999 0 (waitForToken 0 1 ready_service) = waitForToken 0 1 ready_service \<and>
   pendingFlowType (timerFires 5000 0 (waitForToken 0 1 ready_service)) = None \<and>
   callbacks (timerFires 5000 0 (waitForToken 0 1 ready_service)) = [OnReady, OnSilentFail] \<and>
   tokenWaiters (timerFires 5000 0 (waitForToken 0 1 ready_service)) = [1] \<and>
   settled (timerFires 5000 0 (waitForToken 0 1 ready_service)) = [] \<and>
   callbacks (onTokenResponse 100 \<lparr> error = Some ''interaction_required'', access_token = [], expires_in = 0 \<rparr>
                (waitForToken 0 1 ready_service)) = [OnReady, OnSilentFail] \<and>
   tokenWaiters (onTokenResponse 100 \<lparr> error = Some ''interaction_required'', access_token = [], expires_in = 0 \<rparr>
                (waitForToken 0 1 ready_service)) = [] \<and>
   settled (onTokenResponse 100 \<lparr> error = Some ''interaction_required'', access_token = [], expires_in = 0 \<rparr>
                (waitForToken 0 1 ready_service)) = [(1, Rejected ''OAuth error: interaction_required'')] \<and>
   timers (onTokenError \<lparr> err_error = Some ''server_error'', err_type = None, err_message = None \<rparr>
             (waitForToken 0 1 ready_service)) = []"
  by (simp add: hasValidToken_def present_def ready_service_def init_def initTokenClient_def
      module_loaded_def waitForToken_def silentRefresh_def timerFires_def handleFailedFlow_def
      onTokenResponse_def onTokenError_def clearSilentTimer_def isSilentAuthError_def isTokenExpired_def
      no_session_def SILENT_REFRESH_TIMEOUT_MS_def Let_def)

lemma onTokenResponse_client: "tokenClient (onTokenResponse now r s) = tokenClient s"
  by (simp add: onTokenResponse_def Let_def clearSilentTimer_fields handleFailedFlow_fields)

lemma onTokenError_client:
  "tokenClient (onTokenError err s) = tokenClient s \<and> accessToken (onTokenError err s) = accessToken s"
  by (simp add: onTokenError_def Let_def clearSilentTimer_fields handleFailedFlow_fields)

lemma timerFires_client:
  "tokenClient (timerFires now h s) = tokenClient s \<and> accessToken (timerFires now h s) = accessToken s"
  by (simp add: timerFires_def Let_def split: option.splits)

lemma waitForToken_client:
  "tokenClient (waitForToken now w s) = tokenClient s \<and> accessToken (waitForToken now w s) = accessToken s"
  by (simp add: waitForToken_def Let_def silentRefresh_fields)

lemma reachable_token_client: "reachable s \<Longrightarrow> accessToken s \<noteq> None \<Longrightarrow> tokenClient s"
proof (induction rule: reachable.induct)
  case (loaded ss ls)
  then show ?case by (simp add: module_loaded_def)
next
  case (started s sdk)
  then show ?case by (cases sdk) (simp_all add: init_def initTokenClient_def Let_def)
next
  case (sign_in s)
  then show ?case by (simp add: signIn_def split: if_splits)
next
  case (sign_out s)
  then show ?case by (simp add: signOut_def Let_def)
next
  case (refresh s now)
  then show ?case by (simp add: silentRefresh_fields)
next
  case (wait s now w)
  then show ?case by (simp add: waitForToken_client)
next
  case (timer s now h)
  then show ?case by (simp add: timerFires_client)
next
  case (response s now r)
  then show ?case by (simp add: onTokenResponse_client)
next
  case (failure s err)
  then show ?case by (simp add: onTokenError_client)
next
  case (stores s ss ls)
  then show ?case by simp
qed

text \<open>
  C10. With no expiry stored, \<open>isTokenExpired\<close> is true and \<open>getStoredSession\<close> reports
  \<open>tokenExpired = true\<close>, whatever the time and whether or not a token is stored. In any state
  the module can reach, \<open>waitForToken\<close> then does not resolve its caller: the caller is queued
  and nothing is settled, and \<open>silentRefresh\<close> is called unless a silent flow is pending
  already; so when the module holds a token (or, more generally, its token client exists) a
  silent refresh is pending afterwards, requested by this call unless one was pending already.
\<close>

theorem missing_expiry_counts_as_expired:
  assumes "reachable s" and "EXPIRES_AT (sessionStorage s) = None"
  shows "isTokenExpired now s \<and>
         tokenExpired (getStoredSession now s) \<and>
         settled (waitForToken now w s) = settled s \<and>
         tokenWaiters (waitForToken now w s) = tokenWaiters s @ [w] \<and>
         waitForToken now w s =
           (if pendingFlowType s = Some Silent then s\<lparr> tokenWaiters := tokenWaiters s @ [w] \<rparr>
            else silentRefresh now (s\<lparr> tokenWaiters := tokenWaiters s @ [w] \<rparr>)) \<and>
         (accessToken s \<noteq> None \<or> tokenClient s \<longrightarrow>
            pendingFlowType (waitForToken now w s) = Some Silent \<and>
            requests (waitForToken now w s) =
              (if pendingFlowType s = Some Silent then requests s
               else requests s @ [\<lparr> prompt = [], login_hint = Some (getLoginHint s) \<rparr>]))"
proof -
  have expired: "isTokenExpired now s"
    using assms(2) by (simp add: isTokenExpired_def)
  then have invalid: "\<not> hasValidToken now s"
    by (simp add: hasValidToken_def)
  have client: "accessToken s \<noteq> None \<or> tokenClient s \<longrightarrow> tokenClient s"
    using reachable_token_client [OF assms(1)] by blast
  note f = waitForToken_fields [OF invalid, of w]
  have branch: "waitForToken now w s =
           (if pendingFlowType s = Some Silent then s\<lparr> tokenWaiters := tokenWaiters s @ [w] \<rparr>
            else silentRefresh now (s\<lparr> tokenWaiters := tokenWaiters s @ [w] \<rparr>))"
    using invalid by (auto simp: waitForToken_def hasValidToken_def Let_def)
  have rest: "isTokenExpired now s \<and>
         tokenExpired (getStoredSession now s) \<and>
         settled (waitForToken now w s) = settled s \<and>
         tokenWaiters (waitForToken now w s) = tokenWaiters s @ [w] \<and>
         (accessToken s \<noteq> None \<or> tokenClient s \<longrightarrow>
            pendingFlowType (waitForToken now w s) = Some Silent \<and>
            requests (waitForToken now w s) =
              (if pendingFlowType s = Some Silent then requests s
               else requests s @ [\<lparr> prompt = [], login_hint = Some (getLoginHint s) \<rparr>]))"
    using expired client by (auto simp: getStoredSession_def f)
  from rest branch show ?thesis by blast
qed

text \<open>
  A token received, then the tab's store emptied by the rest of the application: the module
  still holds the token, no expiry is stored, and a caller of \<open>waitForToken\<close> is queued behind
  a new silent refresh.
\<close>

theorem missing_expiry_after_clearing:
  "accessToken ((onTokenResponse 0 \<lparr> error = None, access_token = ''T'', expires_in = 3599 \<rparr> ready_service)
       \<lparr> sessionStorage := no_session, localStorage := no_local \<rparr>) = Some ''T'' \<and>
   isTokenExpired 10 ((onTokenResponse 0 \<lparr> error = None, access_token = ''T'', expires_in = 3599 \<rparr> ready_service)
       \<lparr> sessionStorage := no_session, localStorage := no_local \<rparr>) \<and>
   settled (waitForToken 10 1
     ((onTokenResponse 0 \<lparr> error = None, access_token = ''T'', expires_in = 3599 \<rparr> ready_service)
       \<lparr> sessionStorage := no_session, localStorage := no_local \<rparr>)) = [] \<and>
   tokenWaiters (waitForToken 10 1
     ((onTokenResponse 0 \<lparr> error = None, access_token = ''T'', expires_in = 3599 \<rparr> ready_service)
       \<lparr> sessionStorage := no_session, localStorage := no_local \<rparr>)) = [1] \<and>
   pendingFlowType (waitForToken 10 1
     ((onTokenResponse 0 \<lparr> error = None, access_token = ''T'', expires_in = 3599 \<rparr> ready_service)
       \<lparr> sessionStorage := no_session, localStorage := no_local \<rparr>)) = Some Silent \<and>
   requests (waitForToken 10 1
     ((onTokenResponse 0 \<lparr> error = None, access_token = ''T'', expires_in = 3599 \<rparr> ready_service)
       \<lparr> sessionStorage := no_session, localStorage := no_local \<rparr>)) =
     [\<lparr> prompt = [], login_hint = Some [] \<rparr>]"
proof -
  let ?r = "\<lparr> error = None, access_token = ''T'', expires_in = 3599 \<rparr>"
  let ?s = "(onTokenResponse 0 ?r ready_service)\<lparr> sessionStorage := no_session, localStorage := no_local \<rparr>"
  have "reachable ready_service"
    unfolding ready_service_def by (intro reachable.started reachable.loaded)
  moreover have "tokenClient ready_service"
    by (simp add: ready_service_def init_def initTokenClient_def)
  ultimately have "reachable (onTokenResponse 0 ?r ready_service)"
    by (rule reachable.response)
  then have reach: "reachable ?s" by (rule reachable.stores)
  have none: "EXPIRES_AT (sessionStorage ?s) = None" by (simp add: no_session_def)
  have before: "accessToken ?s = Some ''T''" "settled ?s = []" "tokenWaiters ?s = []"
    "pendingFlowType ?s = None" "requests ?s = []" "getLoginHint ?s = []" "tokenClient ?s"
    by (simp_all add: onTokenResponse_def clearSilentTimer_def present_def ready_service_def
        init_def initTokenClient_def module_loaded_def getLoginHint_def no_local_def Let_def)
  from missing_expiry_counts_as_expired [OF reach none, of 10 1] before
  show ?thesis by (simp add: silentRefresh_fields)
qed

end
